theory Spec2Isabelle
  imports Complex_Main "HOL-Library.Sublist" "HOL-Library.Multiset" "HOL-Library.Log_Nat"
begin

section \<open>Data model\<close>

text \<open>
  The text of a row is searched, trimmed and lowercased, which depends on the
  characters: it is a list of UTF-16 code units, as in the language. \<open>str\<close> writes
  such a text from an ASCII literal. Strings that the code only compares and
  concatenates (selectors, column names, error messages) are plain strings.
\<close>

type_synonym jsstring = "nat list"

definition str :: "string \<Rightarrow> jsstring" where
  "str s = map of_char s"

text \<open>
  The lead record of the dashboard (\<^verbatim>\<open>type Row\<close>). Every nullable column is an
  option. Scores and the minimum score are modelled as reals: the code only compares
  them with zero, subtracts two of them and looks at the sign of the difference, and
  none of that depends on rounding. The field \<^verbatim>\<open>id\<close> is called \<open>row_id\<close> here.
\<close>

record Row =
  row_id :: jsstring
  url :: "jsstring option"
  title :: "jsstring option"
  publisher_domain :: "jsstring option"
  people :: "jsstring list option"
  severity :: "jsstring option"
  case_type :: "jsstring option"
  lead_score :: "real option"
  triage_reasons :: "jsstring list option"
  triaged_at :: "jsstring option"
  ingested_at :: "jsstring option"
  status :: "jsstring option"

text \<open>
  Page numbers and row indices are integers held in IEEE double precision. The result
  of an arithmetic operation on them is the exact result rounded to 53 significant
  bits, a tie going to the neighbour whose last bit is zero; \<open>js_int\<close> is that
  rounding on integers. The exponent range is not modelled: no overflow to infinity.
\<close>

definition round_even :: "nat \<Rightarrow> int \<Rightarrow> int" where
  "round_even k n =
     (let u = 2 ^ k; q = n div u; r = n mod u
      in if 2 * r < u then q * u
         else if u < 2 * r then (q + 1) * u
         else if even q then q * u else (q + 1) * u)"

definition js_int :: "int \<Rightarrow> int" where
  "js_int n = sgn n * round_even (nat (bitlen \<bar>n\<bar> - 53)) \<bar>n\<bar>"

definition PAGE_SIZE :: int where
  "PAGE_SIZE = 50"

section \<open>The client singleton (\<^verbatim>\<open>src/lib/supabaseClient.ts\<close>)\<close>

text \<open>
  The process configuration that \<^verbatim>\<open>getSupabase\<close> reads: whether \<^verbatim>\<open>window\<close> exists and
  the two public environment variables. The module variable \<^verbatim>\<open>_client\<close> is passed in
  and handed back. The warning that \<^verbatim>\<open>getSupabase\<close> writes to the console when a
  variable is missing reaches no caller and is left out.
\<close>

record env =
  has_window :: bool
  env_url :: "string option"
  env_anon :: "string option"

record client =
  client_url :: string
  client_key :: string

text \<open>\<^verbatim>\<open>!v\<close> for an optional string: true for \<^verbatim>\<open>undefined\<close> and for the empty string.\<close>

definition falsy :: "'a list option \<Rightarrow> bool" where
  "falsy v = (case v of None \<Rightarrow> True | Some s \<Rightarrow> s = [])"

definition createClient :: "string \<Rightarrow> string \<Rightarrow> client" where
  "createClient u k = \<lparr>client_url = u, client_key = k\<rparr>"

definition getSupabase :: "env \<Rightarrow> client option \<Rightarrow> client option \<times> client option" where
  "getSupabase e cl =
     (if \<not> has_window e then (None, cl)
      else case cl of
        Some c \<Rightarrow> (Some c, cl)
      | None \<Rightarrow>
          (if falsy (env_url e) \<or> falsy (env_anon e) then (None, None)
           else let c = createClient (the (env_url e)) (the (env_anon e))
                in (Some c, Some c)))"

section \<open>Queries and responses of the remote service\<close>

text \<open>
  A query is what the builder chain has accumulated when it is awaited: the resource,
  the selected columns, the count option, the filter predicates in the order they were
  added, the ordering and the inclusive range.
\<close>

datatype pg_filter =
    Gte string real
  | Eq string string
  | NotIsNull string

record query =
  from_table :: string
  select_cols :: string
  count_exact :: bool
  filters :: "pg_filter list"
  order_by :: "(string \<times> bool) option"
  range_of :: "(int \<times> int) option"

definition from_select :: "string \<Rightarrow> string \<Rightarrow> query" where
  "from_select t cols =
     \<lparr>from_table = t, select_cols = cols, count_exact = True, filters = [],
      order_by = None, range_of = None\<rparr>"

definition order_q :: "string \<Rightarrow> bool \<Rightarrow> query \<Rightarrow> query" where
  "order_q col asc q = q\<lparr>order_by := Some (col, asc)\<rparr>"

definition range_q :: "int \<Rightarrow> int \<Rightarrow> query \<Rightarrow> query" where
  "range_q a b q = q\<lparr>range_of := Some (a, b)\<rparr>"

definition gte_q :: "string \<Rightarrow> real \<Rightarrow> query \<Rightarrow> query" where
  "gte_q col v q = q\<lparr>filters := filters q @ [Gte col v]\<rparr>"

definition eq_q :: "string \<Rightarrow> string \<Rightarrow> query \<Rightarrow> query" where
  "eq_q col v q = q\<lparr>filters := filters q @ [Eq col v]\<rparr>"

definition not_is_null_q :: "string \<Rightarrow> query \<Rightarrow> query" where
  "not_is_null_q col q = q\<lparr>filters := filters q @ [NotIsNull col]\<rparr>"

datatype pg_error = PgError (message: string)

record response =
  r_error :: "pg_error option"
  r_data :: "Row list option"
  r_count :: "int option"

text \<open>The remote service: what the given client answers to a query.\<close>

type_synonym service = "client \<Rightarrow> query \<Rightarrow> response"

section \<open>The fetcher\<close>

datatype source_tag = V_triage_live | Articles

record fetch_result =
  res_data :: "Row list"
  res_count :: int
  res_source :: source_tag

datatype js_error = Error (err_message: string)

record params =
  p_minScore :: real
  p_severity :: string
  p_caseType :: string
  p_status :: string
  p_page :: int

definition selectCols :: string where
  "selectCols = ''id,url,title,publisher_domain,people,severity,case_type,lead_score,triage_reasons,triaged_at,ingested_at,status''"

text \<open>The query built for the view (\<^verbatim>\<open>q1\<close>) and for the base table (\<^verbatim>\<open>q2\<close>).\<close>

definition viewQuery :: "params \<Rightarrow> query" where
  "viewQuery p =
     (let fromIdx = js_int (js_int (p_page p - 1) * PAGE_SIZE);
          toIdx = js_int (js_int (fromIdx + PAGE_SIZE) - 1);
          q1 = range_q fromIdx toIdx
                 (order_q ''triaged_at'' False (from_select ''v_triage_live'' selectCols));
          q1 = (if p_minScore p > 0 then gte_q ''lead_score'' (p_minScore p) q1 else q1);
          q1 = (if p_severity p \<noteq> ''all'' then eq_q ''severity'' (p_severity p) q1 else q1);
          q1 = (if p_caseType p \<noteq> ''all'' then eq_q ''case_type'' (p_caseType p) q1 else q1);
          q1 = (if p_status p \<noteq> ''all'' then eq_q ''status'' (p_status p) q1 else q1)
      in q1)"

definition articlesQuery :: "params \<Rightarrow> query" where
  "articlesQuery p =
     (let fromIdx = js_int (js_int (p_page p - 1) * PAGE_SIZE);
          toIdx = js_int (js_int (fromIdx + PAGE_SIZE) - 1);
          q2 = range_q fromIdx toIdx
                 (order_q ''triaged_at'' False
                    (not_is_null_q ''triaged_at'' (from_select ''articles'' selectCols)));
          q2 = (if p_minScore p > 0 then gte_q ''lead_score'' (p_minScore p) q2 else q2);
          q2 = (if p_severity p \<noteq> ''all'' then eq_q ''severity'' (p_severity p) q2 else q2);
          q2 = (if p_caseType p \<noteq> ''all'' then eq_q ''case_type'' (p_caseType p) q2 else q2);
          q2 = (if p_status p \<noteq> ''all'' then eq_q ''status'' (p_status p) q2 else q2)
      in q2)"

text \<open>\<^verbatim>\<open>x ?? d\<close> on an optional value.\<close>

definition orElse :: "'a option \<Rightarrow> 'a \<Rightarrow> 'a" where
  "orElse v d = (case v of None \<Rightarrow> d | Some x \<Rightarrow> x)"

text \<open>
  \<^verbatim>\<open>fetchPagedFromViewOrArticles\<close> of the page with the status filter. The result
  carries the module variable \<^verbatim>\<open>_client\<close> after the call, the queries that were
  awaited, in order, and either the thrown error (\<open>Inl\<close>) or the returned object.
\<close>

definition fetchPagedFromViewOrArticles ::
  "env \<Rightarrow> service \<Rightarrow> client option \<Rightarrow> params
     \<Rightarrow> client option \<times> query list \<times> (js_error + fetch_result)" where
  "fetchPagedFromViewOrArticles e svc cl p =
     (case getSupabase e cl of
        (None, cl') \<Rightarrow>
          (cl', [], Inr \<lparr>res_data = [], res_count = 0, res_source = V_triage_live\<rparr>)
      | (Some supabase, cl') \<Rightarrow>
          (let q1 = viewQuery p;
               r1 = svc supabase q1
           in case r_error r1 of
                None \<Rightarrow>
                  (cl', [q1],
                   Inr \<lparr>res_data = orElse (r_data r1) [], res_count = orElse (r_count r1) 0,
                        res_source = V_triage_live\<rparr>)
              | Some e1 \<Rightarrow>
                  (let q2 = articlesQuery p;
                       r2 = svc supabase q2
                   in case r_error r2 of
                        Some e2 \<Rightarrow>
                          (cl', [q1, q2],
                           Inl (Error (''View error: '' @ message e1 @
                                       '' | Articles error: '' @ message e2)))
                      | None \<Rightarrow>
                          (cl', [q1, q2],
                           Inr \<lparr>res_data = orElse (r_data r2) [],
                                res_count = orElse (r_count r2) 0,
                                res_source = Articles\<rparr>))))"


text \<open>
  The same function in the page without the status filter: its parameter object has
  no \<^verbatim>\<open>status\<close> and neither query gets a status predicate.
\<close>

record params0 =
  p0_minScore :: real
  p0_severity :: string
  p0_caseType :: string
  p0_page :: int

definition viewQuery0 :: "params0 \<Rightarrow> query" where
  "viewQuery0 p =
     (let fromIdx = js_int (js_int (p0_page p - 1) * PAGE_SIZE);
          toIdx = js_int (js_int (fromIdx + PAGE_SIZE) - 1);
          q1 = range_q fromIdx toIdx
                 (order_q ''triaged_at'' False (from_select ''v_triage_live'' selectCols));
          q1 = (if p0_minScore p > 0 then gte_q ''lead_score'' (p0_minScore p) q1 else q1);
          q1 = (if p0_severity p \<noteq> ''all'' then eq_q ''severity'' (p0_severity p) q1 else q1);
          q1 = (if p0_caseType p \<noteq> ''all'' then eq_q ''case_type'' (p0_caseType p) q1 else q1)
      in q1)"

definition articlesQuery0 :: "params0 \<Rightarrow> query" where
  "articlesQuery0 p =
     (let fromIdx = js_int (js_int (p0_page p - 1) * PAGE_SIZE);
          toIdx = js_int (js_int (fromIdx + PAGE_SIZE) - 1);
          q2 = range_q fromIdx toIdx
                 (order_q ''triaged_at'' False
                    (not_is_null_q ''triaged_at'' (from_select ''articles'' selectCols)));
          q2 = (if p0_minScore p > 0 then gte_q ''lead_score'' (p0_minScore p) q2 else q2);
          q2 = (if p0_severity p \<noteq> ''all'' then eq_q ''severity'' (p0_severity p) q2 else q2);
          q2 = (if p0_caseType p \<noteq> ''all'' then eq_q ''case_type'' (p0_caseType p) q2 else q2)
      in q2)"

text \<open>
  The page of \<^verbatim>\<open>part_001\<close> imports a ready client instead of calling
  \<^verbatim>\<open>getSupabase\<close>, so its fetcher starts at the queries.
\<close>

definition fetchPagedFromViewOrArticles_imported ::
  "service \<Rightarrow> client \<Rightarrow> params0 \<Rightarrow> query list \<times> (js_error + fetch_result)" where
  "fetchPagedFromViewOrArticles_imported svc supabase p =
     (let q1 = viewQuery0 p;
          r1 = svc supabase q1
      in case r_error r1 of
           None \<Rightarrow>
             ([q1],
              Inr \<lparr>res_data = orElse (r_data r1) [], res_count = orElse (r_count r1) 0,
                   res_source = V_triage_live\<rparr>)
         | Some e1 \<Rightarrow>
             (let q2 = articlesQuery0 p;
                  r2 = svc supabase q2
              in case r_error r2 of
                   Some e2 \<Rightarrow>
                     ([q1, q2],
                      Inl (Error (''View error: '' @ message e1 @
                                  '' | Articles error: '' @ message e2)))
                 | None \<Rightarrow>
                     ([q1, q2],
                      Inr \<lparr>res_data = orElse (r_data r2) [],
                           res_count = orElse (r_count r2) 0,
                           res_source = Articles\<rparr>)))"

definition fetchPagedFromViewOrArticles0 ::
  "env \<Rightarrow> service \<Rightarrow> client option \<Rightarrow> params0
     \<Rightarrow> client option \<times> query list \<times> (js_error + fetch_result)" where
  "fetchPagedFromViewOrArticles0 e svc cl p =
     (case getSupabase e cl of
        (None, cl') \<Rightarrow>
          (cl', [], Inr \<lparr>res_data = [], res_count = 0, res_source = V_triage_live\<rparr>)
      | (Some supabase, cl') \<Rightarrow>
          (let q1 = viewQuery0 p;
               r1 = svc supabase q1
           in case r_error r1 of
                None \<Rightarrow>
                  (cl', [q1],
                   Inr \<lparr>res_data = orElse (r_data r1) [], res_count = orElse (r_count r1) 0,
                        res_source = V_triage_live\<rparr>)
              | Some e1 \<Rightarrow>
                  (let q2 = articlesQuery0 p;
                       r2 = svc supabase q2
                   in case r_error r2 of
                        Some e2 \<Rightarrow>
                          (cl', [q1, q2],
                           Inl (Error (''View error: '' @ message e1 @
                                       '' | Articles error: '' @ message e2)))
                      | None \<Rightarrow>
                          (cl', [q1, q2],
                           Inr \<lparr>res_data = orElse (r_data r2) [],
                                res_count = orElse (r_count r2) 0,
                                res_source = Articles\<rparr>))))"

text \<open>The parameter object of the page without a status filter, read as one with status \<^verbatim>\<open>all\<close>.\<close>

definition withAllStatus :: "params0 \<Rightarrow> params" where
  "withAllStatus p =
     \<lparr>p_minScore = p0_minScore p, p_severity = p0_severity p, p_caseType = p0_caseType p,
      p_status = ''all'', p_page = p0_page p\<rparr>"

section \<open>The page state and \<^verbatim>\<open>load\<close>\<close>

datatype sort_key = Triaged_at | Lead_score

datatype sort_dir = Asc | Desc

text \<open>
  The state variables of the page component (the \<^verbatim>\<open>useState\<close> cells of the page with
  the status filter, which has all the cells of the other pages).
\<close>

record page_state =
  s_rows :: "Row list"
  s_totalCount :: int
  s_loading :: bool
  s_err :: "string option"
  s_source :: "source_tag option"
  s_minScore :: real
  s_severity :: string
  s_caseType :: string
  s_status :: string
  s_searchInput :: jsstring
  s_search :: jsstring
  s_page :: int
  s_autoRefresh :: bool
  s_sortKey :: sort_key
  s_sortDir :: sort_dir
  s_expandedId :: "jsstring option"

text \<open>
  \<^verbatim>\<open>Math.max(1, Math.ceil(count / PAGE_SIZE))\<close> on an integer count. For a count
  from 0 up to \<open>2^53\<close> the rounded quotient lies on the same side of every integer
  as the exact one, so the ceiling is the exact ceiling.
\<close>

definition totalPagesOf :: "int \<Rightarrow> int" where
  "totalPagesOf c = max 1 (- ((- c) div PAGE_SIZE))"

text \<open>
  \<^verbatim>\<open>load\<close>: the filters and the page are the values of the render that created the
  closure; the setters are applied in the order of the code. The only value thrown in
  the \<^verbatim>\<open>try\<close> block is the \<^verbatim>\<open>Error\<close> of the fetcher, whose message is a string.
\<close>

definition load ::
  "env \<Rightarrow> service \<Rightarrow> client option \<times> page_state
     \<Rightarrow> client option \<times> query list \<times> page_state" where
  "load e svc cs =
     (let cl = fst cs; s = snd cs;
          s1 = s\<lparr>s_loading := True\<rparr>;
          s2 = s1\<lparr>s_err := None\<rparr>
      in case fetchPagedFromViewOrArticles e svc cl
                \<lparr>p_minScore = s_minScore s, p_severity = s_severity s,
                 p_caseType = s_caseType s, p_status = s_status s, p_page = s_page s\<rparr> of
           (cl', issued, Inr res) \<Rightarrow>
             (let s3 = s2\<lparr>s_rows := res_data res\<rparr>;
                  s4 = s3\<lparr>s_totalCount := res_count res\<rparr>;
                  s5 = s4\<lparr>s_source := Some (res_source res)\<rparr>;
                  newTotalPages = totalPagesOf (res_count res);
                  s6 = (if s_page s > newTotalPages then s5\<lparr>s_page := 1\<rparr> else s5)
              in (cl', issued, s6\<lparr>s_loading := False\<rparr>))
         | (cl', issued, Inl err) \<Rightarrow>
             (let s3 = s2\<lparr>s_rows := []\<rparr>;
                  s4 = s3\<lparr>s_totalCount := 0\<rparr>;
                  s5 = s4\<lparr>s_err := Some (err_message err)\<rparr>;
                  s6 = s5\<lparr>s_source := None\<rparr>
              in (cl', issued, s6\<lparr>s_loading := False\<rparr>)))"

text \<open>\<^verbatim>\<open>load\<close> of the page without the status filter.\<close>

definition load0 ::
  "env \<Rightarrow> service \<Rightarrow> client option \<times> page_state
     \<Rightarrow> client option \<times> query list \<times> page_state" where
  "load0 e svc cs =
     (let cl = fst cs; s = snd cs;
          s1 = s\<lparr>s_loading := True\<rparr>;
          s2 = s1\<lparr>s_err := None\<rparr>
      in case fetchPagedFromViewOrArticles0 e svc cl
                \<lparr>p0_minScore = s_minScore s, p0_severity = s_severity s,
                 p0_caseType = s_caseType s, p0_page = s_page s\<rparr> of
           (cl', issued, Inr res) \<Rightarrow>
             (let s3 = s2\<lparr>s_rows := res_data res\<rparr>;
                  s4 = s3\<lparr>s_totalCount := res_count res\<rparr>;
                  s5 = s4\<lparr>s_source := Some (res_source res)\<rparr>;
                  newTotalPages = totalPagesOf (res_count res);
                  s6 = (if s_page s > newTotalPages then s5\<lparr>s_page := 1\<rparr> else s5)
              in (cl', issued, s6\<lparr>s_loading := False\<rparr>))
         | (cl', issued, Inl err) \<Rightarrow>
             (let s3 = s2\<lparr>s_rows := []\<rparr>;
                  s4 = s3\<lparr>s_totalCount := 0\<rparr>;
                  s5 = s4\<lparr>s_err := Some (err_message err)\<rparr>;
                  s6 = s5\<lparr>s_source := None\<rparr>
              in (cl', issued, s6\<lparr>s_loading := False\<rparr>)))"

text \<open>\<^verbatim>\<open>load\<close> of the page of \<^verbatim>\<open>part_001\<close>, whose client is imported.\<close>

definition load_imported ::
  "service \<Rightarrow> client \<Rightarrow> page_state \<Rightarrow> query list \<times> page_state" where
  "load_imported svc supabase s =
     (let s1 = s\<lparr>s_loading := True\<rparr>;
          s2 = s1\<lparr>s_err := None\<rparr>
      in case fetchPagedFromViewOrArticles_imported svc supabase
                \<lparr>p0_minScore = s_minScore s, p0_severity = s_severity s,
                 p0_caseType = s_caseType s, p0_page = s_page s\<rparr> of
           (issued, Inr res) \<Rightarrow>
             (let s3 = s2\<lparr>s_rows := res_data res\<rparr>;
                  s4 = s3\<lparr>s_totalCount := res_count res\<rparr>;
                  s5 = s4\<lparr>s_source := Some (res_source res)\<rparr>;
                  newTotalPages = totalPagesOf (res_count res);
                  s6 = (if s_page s > newTotalPages then s5\<lparr>s_page := 1\<rparr> else s5)
              in (issued, s6\<lparr>s_loading := False\<rparr>))
         | (issued, Inl err) \<Rightarrow>
             (let s3 = s2\<lparr>s_rows := []\<rparr>;
                  s4 = s3\<lparr>s_totalCount := 0\<rparr>;
                  s5 = s4\<lparr>s_err := Some (err_message err)\<rparr>;
                  s6 = s5\<lparr>s_source := None\<rparr>
              in (issued, s6\<lparr>s_loading := False\<rparr>)))"

section \<open>Client-side search\<close>

text \<open>
  \<^verbatim>\<open>String.prototype.toLowerCase\<close> is the case conversion of the language, a table of
  the Unicode standard: the search functions take it as the parameter \<open>lower\<close>.
  \<^verbatim>\<open>String.prototype.trim\<close> removes, at both ends, the code units that are white space
  or line terminators of the language: tab, line feed, vertical tab, form feed,
  carriage return, space, no-break space, the Ogham space mark, the spaces U+2000 to
  U+200A, the line and paragraph separators, the narrow no-break space, the medium
  mathematical space, the ideographic space and the byte order mark.
\<close>

definition isWhite :: "nat \<Rightarrow> bool" where
  "isWhite c =
     (c \<in> set [9, 10, 11, 12, 13, 32, 160, 5760, 8232, 8233, 8239, 8287, 12288, 65279]
      \<or> (8192 \<le> c \<and> c \<le> 8202))"

definition trim :: "jsstring \<Rightarrow> jsstring" where
  "trim s = rev (dropWhile isWhite (rev (dropWhile isWhite s)))"

text \<open>\<^verbatim>\<open>hay.includes(s)\<close>: does \<open>s\<close> occur in \<open>hay\<close> as a contiguous substring.\<close>

fun includes_str :: "'a list \<Rightarrow> 'a list \<Rightarrow> bool" where
  "includes_str [] s = (s = [])"
| "includes_str (h # hs) s = (prefix s (h # hs) \<or> includes_str hs s)"

text \<open>\<^verbatim>\<open>xs.join(sep)\<close>.\<close>

fun join :: "'a list \<Rightarrow> 'a list list \<Rightarrow> 'a list" where
  "join sep [] = []"
| "join sep [x] = x"
| "join sep (x # y # ys) = x @ sep @ join sep (y # ys)"

text \<open>
  The haystack of the pages without a status filter, and their search step. The
  separator is one space, code unit 32.
\<close>

definition haystack :: "(jsstring \<Rightarrow> jsstring) \<Rightarrow> Row \<Rightarrow> jsstring" where
  "haystack lower r =
     lower
       (orElse (title r) [] @ [32] @ orElse (publisher_domain r) [] @ [32] @
        join [32] (orElse (triage_reasons r) []) @ [32] @
        join [32] (orElse (people r) []))"

definition searched :: "(jsstring \<Rightarrow> jsstring) \<Rightarrow> Row list \<Rightarrow> jsstring \<Rightarrow> Row list" where
  "searched lower rows search =
     (let s = lower (trim search)
      in if s = [] then rows else filter (\<lambda>r. includes_str (haystack lower r) s) rows)"

text \<open>The haystack of the page with the status filter, which appends the status.\<close>

definition haystack_status :: "(jsstring \<Rightarrow> jsstring) \<Rightarrow> Row \<Rightarrow> jsstring" where
  "haystack_status lower r =
     lower
       (orElse (title r) [] @ [32] @ orElse (publisher_domain r) [] @ [32] @
        join [32] (orElse (triage_reasons r) []) @ [32] @
        join [32] (orElse (people r) []) @ [32] @ orElse (status r) [])"

definition searched_status ::
  "(jsstring \<Rightarrow> jsstring) \<Rightarrow> Row list \<Rightarrow> jsstring \<Rightarrow> Row list" where
  "searched_status lower rows search =
     (let s = lower (trim search)
      in if s = [] then rows
         else filter (\<lambda>r. includes_str (haystack_status lower r) s) rows)"

text \<open>
  The search step of the compact page (the one whose fetcher is \<^verbatim>\<open>fetchPaged\<close>): the
  search text is not trimmed, a null title or domain prints as \<^verbatim>\<open>null\<close>, the people
  come before the reasons and the status is not part of the haystack.
\<close>

definition templateStr :: "jsstring option \<Rightarrow> jsstring" where
  "templateStr v = orElse v (str ''null'')"

definition haystack_compact :: "(jsstring \<Rightarrow> jsstring) \<Rightarrow> Row \<Rightarrow> jsstring" where
  "haystack_compact lower r =
     lower
       (templateStr (title r) @ [32] @ templateStr (publisher_domain r) @ [32] @
        join [32] (orElse (people r) []) @ [32] @
        join [32] (orElse (triage_reasons r) []))"

definition searched_compact ::
  "(jsstring \<Rightarrow> jsstring) \<Rightarrow> Row list \<Rightarrow> jsstring \<Rightarrow> Row list" where
  "searched_compact lower rows search =
     (let s = lower search
      in if s = [] then rows
         else filter (\<lambda>r. includes_str (haystack_compact lower r) s) rows)"

section \<open>Client-side sort\<close>

text \<open>
  The values a comparator can return: a finite number, the two infinities, and NaN
  (the difference of two equal infinities).
\<close>

datatype jsnum = NaN | NegInf | Fin real | PosInf

fun js_sub :: "jsnum \<Rightarrow> jsnum \<Rightarrow> jsnum" where
  "js_sub NaN y = NaN"
| "js_sub x NaN = NaN"
| "js_sub (Fin a) (Fin b) = Fin (a - b)"
| "js_sub (Fin a) NegInf = PosInf"
| "js_sub (Fin a) PosInf = NegInf"
| "js_sub NegInf NegInf = NaN"
| "js_sub NegInf y = NegInf"
| "js_sub PosInf PosInf = NaN"
| "js_sub PosInf y = PosInf"

text \<open>
  \<^verbatim>\<open>Array.prototype.sort\<close> with a comparator. The language fixes the result for a
  consistent comparator: a stable sort, where a comparator value that is NaN counts
  as zero. It is modelled by the stable insertion sort that moves an element behind
  its right neighbour only when the comparator is positive.
\<close>

fun js_positive :: "jsnum \<Rightarrow> bool" where
  "js_positive (Fin x) = (0 < x)"
| "js_positive PosInf = True"
| "js_positive NaN = False"
| "js_positive NegInf = False"

fun insert_cmp :: "('a \<Rightarrow> 'a \<Rightarrow> jsnum) \<Rightarrow> 'a \<Rightarrow> 'a list \<Rightarrow> 'a list" where
  "insert_cmp cmp x [] = [x]"
| "insert_cmp cmp x (y # ys) =
     (if js_positive (cmp x y) then y # insert_cmp cmp x ys else x # y # ys)"

fun array_sort :: "('a \<Rightarrow> 'a \<Rightarrow> jsnum) \<Rightarrow> 'a list \<Rightarrow> 'a list" where
  "array_sort cmp [] = []"
| "array_sort cmp (x # xs) = insert_cmp cmp x (array_sort cmp xs)"

text \<open>
  The comparator of the two full pages. \<open>getTime\<close> stands for
  \<^verbatim>\<open>new Date(s).getTime()\<close>, the date parser of the language.
\<close>

definition compareRows ::
  "(jsstring \<Rightarrow> jsnum) \<Rightarrow> sort_key \<Rightarrow> sort_dir \<Rightarrow> Row \<Rightarrow> Row \<Rightarrow> jsnum" where
  "compareRows getTime sortKey sortDir a b =
     (if sortKey = Lead_score then
        (let av = (case lead_score a of None \<Rightarrow> NegInf | Some v \<Rightarrow> Fin v);
             bv = (case lead_score b of None \<Rightarrow> NegInf | Some v \<Rightarrow> Fin v)
         in if sortDir = Asc then js_sub av bv else js_sub bv av)
      else
        (let aT = (if \<not> falsy (triaged_at a) then getTime (the (triaged_at a)) else NegInf);
             bT = (if \<not> falsy (triaged_at b) then getTime (the (triaged_at b)) else NegInf)
         in if sortDir = Asc then js_sub aT bT else js_sub bT aT))"

definition filtered ::
  "(jsstring \<Rightarrow> jsstring) \<Rightarrow> (jsstring \<Rightarrow> jsnum) \<Rightarrow> Row list \<Rightarrow> jsstring
     \<Rightarrow> sort_key \<Rightarrow> sort_dir \<Rightarrow> Row list" where
  "filtered lower getTime rows search sortKey sortDir =
     array_sort (compareRows getTime sortKey sortDir) (searched lower rows search)"

definition filtered_status ::
  "(jsstring \<Rightarrow> jsstring) \<Rightarrow> (jsstring \<Rightarrow> jsnum) \<Rightarrow> Row list \<Rightarrow> jsstring
     \<Rightarrow> sort_key \<Rightarrow> sort_dir \<Rightarrow> Row list" where
  "filtered_status lower getTime rows search sortKey sortDir =
     array_sort (compareRows getTime sortKey sortDir) (searched_status lower rows search)"

text \<open>
  The sort of the compact page: a missing score counts as \<open>-1\<close> and a missing
  timestamp as \<^verbatim>\<open>new Date(0)\<close>, whose time is \<open>0\<close>.
\<close>

definition compareRows_compact ::
  "(jsstring \<Rightarrow> jsnum) \<Rightarrow> sort_key \<Rightarrow> sort_dir \<Rightarrow> Row \<Rightarrow> Row \<Rightarrow> jsnum" where
  "compareRows_compact getTime sortKey sortDir a b =
     (let av = (if sortKey = Lead_score then Fin (orElse (lead_score a) (- 1))
                else (case triaged_at a of None \<Rightarrow> Fin 0 | Some s \<Rightarrow> getTime s));
          bv = (if sortKey = Lead_score then Fin (orElse (lead_score b) (- 1))
                else (case triaged_at b of None \<Rightarrow> Fin 0 | Some s \<Rightarrow> getTime s))
      in if sortDir = Asc then js_sub av bv else js_sub bv av)"

definition filtered_compact ::
  "(jsstring \<Rightarrow> jsstring) \<Rightarrow> (jsstring \<Rightarrow> jsnum) \<Rightarrow> Row list \<Rightarrow> jsstring
     \<Rightarrow> sort_key \<Rightarrow> sort_dir \<Rightarrow> Row list" where
  "filtered_compact lower getTime rows search sortKey sortDir =
     array_sort (compareRows_compact getTime sortKey sortDir)
       (searched_compact lower rows search)"

section \<open>Sort keys\<close>

text \<open>
  The order of the language on numbers (\<^verbatim>\<open>x <= y\<close>), in which NaN is comparable to
  nothing, and the sort keys that the specification describes: a missing score or a
  missing timestamp counts as negative infinity.
\<close>

fun js_le :: "jsnum \<Rightarrow> jsnum \<Rightarrow> bool" where
  "js_le NaN y = False"
| "js_le x NaN = False"
| "js_le NegInf y = True"
| "js_le x PosInf = True"
| "js_le (Fin a) (Fin b) = (a \<le> b)"
| "js_le (Fin a) NegInf = False"
| "js_le PosInf y = False"

fun is_finite :: "jsnum \<Rightarrow> bool" where
  "is_finite (Fin x) = True"
| "is_finite NaN = False"
| "is_finite NegInf = False"
| "is_finite PosInf = False"

definition scoreKey :: "Row \<Rightarrow> jsnum" where
  "scoreKey r = (case lead_score r of None \<Rightarrow> NegInf | Some v \<Rightarrow> Fin v)"

definition timeKey :: "(jsstring \<Rightarrow> jsnum) \<Rightarrow> Row \<Rightarrow> jsnum" where
  "timeKey getTime r = (if falsy (triaged_at r) then NegInf else getTime (the (triaged_at r)))"

text \<open>Every timestamp that is present is one the date parser reads as a finite time.\<close>

definition timestamps_parse :: "(jsstring \<Rightarrow> jsnum) \<Rightarrow> Row list \<Rightarrow> bool" where
  "timestamps_parse getTime rows =
     list_all (\<lambda>r. falsy (triaged_at r) \<or> is_finite (getTime (the (triaged_at r)))) rows"

text \<open>The keys of the compact page: \<open>-1\<close> for a missing score, time \<open>0\<close> for a missing timestamp.\<close>

definition scoreKey_compact :: "Row \<Rightarrow> jsnum" where
  "scoreKey_compact r = (case lead_score r of None \<Rightarrow> Fin (- 1) | Some v \<Rightarrow> Fin v)"

definition timeKey_compact :: "(jsstring \<Rightarrow> jsnum) \<Rightarrow> Row \<Rightarrow> jsnum" where
  "timeKey_compact getTime r = (case triaged_at r of None \<Rightarrow> Fin 0 | Some s \<Rightarrow> getTime s)"

definition timestamps_parse_compact :: "(jsstring \<Rightarrow> jsnum) \<Rightarrow> Row list \<Rightarrow> bool" where
  "timestamps_parse_compact getTime rows =
     list_all (\<lambda>r. case triaged_at r of None \<Rightarrow> True | Some s \<Rightarrow> is_finite (getTime s)) rows"

text \<open>The key selected by the sort key, and the order selected by the sort direction.\<close>

definition keyOf :: "(jsstring \<Rightarrow> jsnum) \<Rightarrow> sort_key \<Rightarrow> Row \<Rightarrow> jsnum" where
  "keyOf getTime k r = (case k of Lead_score \<Rightarrow> scoreKey r | Triaged_at \<Rightarrow> timeKey getTime r)"

definition keyOf_compact :: "(jsstring \<Rightarrow> jsnum) \<Rightarrow> sort_key \<Rightarrow> Row \<Rightarrow> jsnum" where
  "keyOf_compact getTime k r =
     (case k of Lead_score \<Rightarrow> scoreKey_compact r | Triaged_at \<Rightarrow> timeKey_compact getTime r)"

definition inOrder :: "sort_dir \<Rightarrow> jsnum \<Rightarrow> jsnum \<Rightarrow> bool" where
  "inOrder d x y = (case d of Asc \<Rightarrow> js_le x y | Desc \<Rightarrow> js_le y x)"

section \<open>Sample inputs\<close>

text \<open>
  Concrete configurations, parameters and services on which the results below are
  evaluated: a service that answers every query from a table of rows and honours the
  range, one whose view is missing, and one where both resources are missing.
\<close>

definition env_configured :: env where
  "env_configured =
     \<lparr>has_window = True, env_url = Some ''https://db.example'', env_anon = Some ''anon-key''\<rparr>"

definition env_unconfigured :: env where
  "env_unconfigured = \<lparr>has_window = True, env_url = None, env_anon = Some ''anon-key''\<rparr>"

definition sample_client :: client where
  "sample_client = createClient ''https://db.example'' ''anon-key''"

definition sample_params :: params where
  "sample_params =
     \<lparr>p_minScore = 70, p_severity = ''fatal'', p_caseType = ''all'', p_status = ''new'',
      p_page = 3\<rparr>"

definition sample_params0 :: params0 where
  "sample_params0 =
     \<lparr>p0_minScore = 70, p0_severity = ''fatal'', p0_caseType = ''all'', p0_page = 3\<rparr>"

definition svc_table :: "Row list \<Rightarrow> service" where
  "svc_table tbl c q =
     (case range_of q of
        None \<Rightarrow> \<lparr>r_error = None, r_data = Some tbl, r_count = Some (int (length tbl))\<rparr>
      | Some (a, b) \<Rightarrow>
          \<lparr>r_error = None, r_data = Some (take (nat (b - a + 1)) (drop (nat a) tbl)),
           r_count = Some (int (length tbl))\<rparr>)"

definition svc_view_down :: "Row list \<Rightarrow> service" where
  "svc_view_down tbl c q =
     (if from_table q = ''v_triage_live''
      then \<lparr>r_error = Some (PgError ''view missing''), r_data = None, r_count = None\<rparr>
      else svc_table tbl c q)"

definition svc_down :: service where
  "svc_down c q =
     (if from_table q = ''v_triage_live''
      then \<lparr>r_error = Some (PgError ''view missing''), r_data = None, r_count = None\<rparr>
      else \<lparr>r_error = Some (PgError ''table missing''), r_data = None, r_count = None\<rparr>)"

text \<open>A service that rejects every query with the predicate \<^verbatim>\<open>status = new\<close>.\<close>

definition svc_status_down :: "Row list \<Rightarrow> service" where
  "svc_status_down tbl c q =
     (if Eq ''status'' ''new'' \<in> set (filters q)
      then \<lparr>r_error = Some (PgError ''status rejected''), r_data = None, r_count = None\<rparr>
      else svc_table tbl c q)"

definition row_a :: Row where
  "row_a =
     \<lparr>row_id = str ''a'', url = Some (str ''https://news.example/a''),
      title = Some (str ''Truck Crash on I-80''),
      publisher_domain = Some (str ''news.example''),
      people = Some [str ''Jane Doe'', str ''Sam Roe''], severity = Some (str ''fatal''),
      case_type = Some (str ''truck''), lead_score = Some 90,
      triage_reasons = Some [str ''fatality'', str ''commercial vehicle''],
      triaged_at = Some (str ''2024-05-02T10:00:00Z''),
      ingested_at = Some (str ''2024-05-02T09:00:00Z''), status = Some (str ''new'')\<rparr>"

definition row_b :: Row where
  "row_b =
     \<lparr>row_id = str ''b'', url = None, title = Some (str ''Minor collision''),
      publisher_domain = Some (str ''local.example''), people = None,
      severity = Some (str ''injury''), case_type = Some (str ''auto''),
      lead_score = Some 40, triage_reasons = None,
      triaged_at = Some (str ''2024-05-01T10:00:00Z''), ingested_at = None,
      status = None\<rparr>"

definition row_c :: Row where
  "row_c =
     \<lparr>row_id = str ''c'', url = None, title = None, publisher_domain = None, people = None,
      severity = None, case_type = None, lead_score = None, triage_reasons = None,
      triaged_at = None, ingested_at = None, status = None\<rparr>"

definition sample_rows :: "Row list" where
  "sample_rows = [row_b, row_c, row_a]"


text \<open>The date parser on the two timestamps of the sample rows (milliseconds since 1970).\<close>

definition sample_getTime :: "jsstring \<Rightarrow> jsnum" where
  "sample_getTime s =
     (if s = str ''2024-05-02T10:00:00Z'' then Fin 1714644000000
      else if s = str ''2024-05-01T10:00:00Z'' then Fin 1714557600000
      else NaN)"

text \<open>
  The case conversion on texts whose only letters are ASCII letters, where it maps
  \<^verbatim>\<open>A\<close> to \<^verbatim>\<open>Z\<close> to \<^verbatim>\<open>a\<close> to \<^verbatim>\<open>z\<close> and leaves every other code unit; the
  sample texts are of that kind.
\<close>

definition sample_lower :: "jsstring \<Rightarrow> jsstring" where
  "sample_lower s = map (\<lambda>c. if 65 \<le> c \<and> c \<le> 90 then c + 32 else c) s"

text \<open>A page state whose filters and page are those of \<open>sample_params\<close>.\<close>

definition sample_state :: page_state where
  "sample_state =
     \<lparr>s_rows = sample_rows, s_totalCount = 120, s_loading = False, s_err = None,
      s_source = Some V_triage_live, s_minScore = 70, s_severity = ''fatal'',
      s_caseType = ''all'', s_status = ''new'', s_searchInput = str ''crash'',
      s_search = str ''crash'', s_page = 3, s_autoRefresh = True, s_sortKey = Triaged_at,
      s_sortDir = Desc, s_expandedId = None\<rparr>"

section \<open>Facts about the queries and the fetcher\<close>

lemmas builder_defs = from_select_def order_q_def range_q_def gte_q_def eq_q_def
  not_is_null_q_def

lemma viewQuery0_eq: "viewQuery0 p = viewQuery (withAllStatus p)"
  by (simp add: viewQuery0_def viewQuery_def withAllStatus_def Let_def)

lemma articlesQuery0_eq: "articlesQuery0 p = articlesQuery (withAllStatus p)"
  by (simp add: articlesQuery0_def articlesQuery_def withAllStatus_def Let_def)

lemma fetch0_eq:
  "fetchPagedFromViewOrArticles0 e svc cl p =
     fetchPagedFromViewOrArticles e svc cl (withAllStatus p)"
  by (simp add: fetchPagedFromViewOrArticles0_def fetchPagedFromViewOrArticles_def
      viewQuery0_eq articlesQuery0_eq Let_def split: prod.splits option.splits)

lemma fetch0_imported:
  "getSupabase e cl = (Some c, cl') \<Longrightarrow>
   fetchPagedFromViewOrArticles0 e svc cl p =
     (cl', fetchPagedFromViewOrArticles_imported svc c p)"
  by (simp add: fetchPagedFromViewOrArticles0_def
      fetchPagedFromViewOrArticles_imported_def Let_def
      split: option.splits)

lemma filters_viewQuery:
  "filters (viewQuery p) =
     (if 0 < p_minScore p then [Gte ''lead_score'' (p_minScore p)] else []) @
     (if p_severity p \<noteq> ''all'' then [Eq ''severity'' (p_severity p)] else []) @
     (if p_caseType p \<noteq> ''all'' then [Eq ''case_type'' (p_caseType p)] else []) @
     (if p_status p \<noteq> ''all'' then [Eq ''status'' (p_status p)] else [])"
  by (simp add: viewQuery_def Let_def builder_defs)

lemma articlesQuery_viewQuery:
  "articlesQuery p =
     (viewQuery p)\<lparr>from_table := ''articles'',
                   filters := NotIsNull ''triaged_at'' # filters (viewQuery p)\<rparr>"
  by (simp add: viewQuery_def articlesQuery_def Let_def builder_defs)

lemma order_viewQuery: "order_by (viewQuery p) = Some (''triaged_at'', False)"
  by (simp add: viewQuery_def Let_def builder_defs)

lemma round_even_0: "round_even 0 n = n"
  by (simp add: round_even_def)

lemma js_int_exact:
  assumes "\<bar>n\<bar> < 2 ^ 53"
  shows "js_int n = n"
proof -
  have "bitlen \<bar>n\<bar> \<le> 53"
    using assms by (simp add: bitlen_le_iff_power)
  then have "nat (bitlen \<bar>n\<bar> - 53) = 0"
    by simp
  then show ?thesis
    by (simp add: js_int_def round_even_0 mult_sgn_abs)
qed

lemma page_indices:
  assumes "1 \<le> pg" and "pg * 50 < 2 ^ 53"
  shows "js_int (js_int (pg - 1) * PAGE_SIZE) = (pg - 1) * 50"
    and "js_int (js_int ((pg - 1) * 50 + PAGE_SIZE) - 1) = (pg - 1) * 50 + 49"
proof -
  have a: "js_int (pg - 1) = pg - 1"
    using assms by (intro js_int_exact) simp
  have b: "js_int ((pg - 1) * 50) = (pg - 1) * 50"
    using assms by (intro js_int_exact) simp
  have c: "js_int ((pg - 1) * 50 + 50) = (pg - 1) * 50 + 50"
    using assms by (intro js_int_exact) simp
  have d: "js_int ((pg - 1) * 50 + 50 - 1) = (pg - 1) * 50 + 50 - 1"
    using assms by (intro js_int_exact) simp
  show "js_int (js_int (pg - 1) * PAGE_SIZE) = (pg - 1) * 50"
    unfolding PAGE_SIZE_def a b by (rule refl)
  show "js_int (js_int ((pg - 1) * 50 + PAGE_SIZE) - 1) = (pg - 1) * 50 + 49"
    unfolding PAGE_SIZE_def c d by simp
qed

lemma range_viewQuery_raw:
  "range_of (viewQuery p) =
     Some (js_int (js_int (p_page p - 1) * PAGE_SIZE),
           js_int (js_int (js_int (js_int (p_page p - 1) * PAGE_SIZE) + PAGE_SIZE) - 1))"
  by (simp add: viewQuery_def Let_def builder_defs)

lemma range_viewQuery:
  assumes "1 \<le> p_page p" and "p_page p * 50 < 2 ^ 53"
  shows "range_of (viewQuery p) = Some ((p_page p - 1) * 50, (p_page p - 1) * 50 + 49)"
  unfolding range_viewQuery_raw page_indices [OF assms] by (rule refl)

lemma range_sample_params: "range_of (viewQuery sample_params) = Some (100, 149)"
  using range_viewQuery [of sample_params] by (simp add: sample_params_def)

lemma table_viewQuery: "from_table (viewQuery p) = ''v_triage_live''"
  by (simp add: viewQuery_def Let_def builder_defs)

lemma getSupabase_absent:
  "falsy (env_url e) \<or> falsy (env_anon e) \<Longrightarrow> getSupabase e None = (None, None)"
  by (simp add: getSupabase_def)

lemmas sample_defs = env_configured_def env_unconfigured_def sample_client_def
  sample_params_def sample_params0_def svc_table_def svc_view_down_def svc_down_def

lemma getSupabase_configured:
  "getSupabase env_configured None = (Some sample_client, Some sample_client)"
  by (simp add: getSupabase_def sample_defs falsy_def Let_def)

lemma table_articlesQuery: "from_table (articlesQuery p) = ''articles''"
  by (simp add: articlesQuery_viewQuery)

section \<open>The fallback query\<close>

text \<open>
  C1. When a client exists and the view query fails, the fetcher awaits exactly the
  view query and then the table query. The view query carries the score predicate
  when the minimum score is positive and one equality per selector that is not
  \<^verbatim>\<open>all\<close>; the table query carries the non-null predicate on \<^verbatim>\<open>triaged_at\<close> followed
  by the same predicates, and has the same descending order on \<^verbatim>\<open>triaged_at\<close> and the
  same range: it is the view query with the resource replaced and the one predicate
  added. The last conjunct says the same of the page without the status filter.
\<close>

theorem fallback_query_same_predicates:
  assumes "getSupabase e cl = (Some c, cl')"
    and "r_error (svc c (viewQuery p)) \<noteq> None"
  shows "fst (snd (fetchPagedFromViewOrArticles e svc cl p)) = [viewQuery p, articlesQuery p]
     \<and> filters (viewQuery p) =
         (if 0 < p_minScore p then [Gte ''lead_score'' (p_minScore p)] else []) @
         (if p_severity p \<noteq> ''all'' then [Eq ''severity'' (p_severity p)] else []) @
         (if p_caseType p \<noteq> ''all'' then [Eq ''case_type'' (p_caseType p)] else []) @
         (if p_status p \<noteq> ''all'' then [Eq ''status'' (p_status p)] else [])
     \<and> filters (articlesQuery p) = NotIsNull ''triaged_at'' # filters (viewQuery p)
     \<and> order_by (viewQuery p) = Some (''triaged_at'', False)
     \<and> order_by (articlesQuery p) = order_by (viewQuery p)
     \<and> range_of (articlesQuery p) = range_of (viewQuery p)
     \<and> articlesQuery p =
         (viewQuery p)\<lparr>from_table := ''articles'',
                       filters := NotIsNull ''triaged_at'' # filters (viewQuery p)\<rparr>
     \<and> articlesQuery0 pa =
         (viewQuery0 pa)\<lparr>from_table := ''articles'',
                         filters := NotIsNull ''triaged_at'' # filters (viewQuery0 pa)\<rparr>"
proof -
  obtain e1 where e1: "r_error (svc c (viewQuery p)) = Some e1"
    using assms(2) by blast
  have issued: "fst (snd (fetchPagedFromViewOrArticles e svc cl p))
                  = [viewQuery p, articlesQuery p]"
    using assms(1) e1
    by (simp add: fetchPagedFromViewOrArticles_def Let_def split: option.splits)
  have q2: "articlesQuery p =
         (viewQuery p)\<lparr>from_table := ''articles'',
                       filters := NotIsNull ''triaged_at'' # filters (viewQuery p)\<rparr>"
    by (rule articlesQuery_viewQuery)
  have q20: "articlesQuery0 pa =
         (viewQuery0 pa)\<lparr>from_table := ''articles'',
                         filters := NotIsNull ''triaged_at'' # filters (viewQuery0 pa)\<rparr>"
    by (simp add: articlesQuery0_eq viewQuery0_eq articlesQuery_viewQuery)
  have f2: "filters (articlesQuery p) = NotIsNull ''triaged_at'' # filters (viewQuery p)"
    by (simp add: articlesQuery_viewQuery)
  have o2: "order_by (articlesQuery p) = order_by (viewQuery p)"
    by (simp add: articlesQuery_viewQuery)
  have r2: "range_of (articlesQuery p) = range_of (viewQuery p)"
    by (simp add: articlesQuery_viewQuery)
  show ?thesis
    using issued filters_viewQuery [of p] f2 order_viewQuery [of p] o2 r2 q2 q20
    by blast
qed

theorem fallback_query_same_predicates_witness:
  "getSupabase env_configured None = (Some sample_client, Some sample_client)
   \<and> r_error (svc_down sample_client (viewQuery sample_params)) \<noteq> None
   \<and> fst (snd (fetchPagedFromViewOrArticles env_configured svc_down None sample_params))
       = [viewQuery sample_params, articlesQuery sample_params]
   \<and> filters (viewQuery sample_params) =
       [Gte ''lead_score'' 70, Eq ''severity'' ''fatal'', Eq ''status'' ''new'']
   \<and> filters (articlesQuery sample_params) =
       [NotIsNull ''triaged_at'', Gte ''lead_score'' 70, Eq ''severity'' ''fatal'',
        Eq ''status'' ''new'']
   \<and> range_of (articlesQuery sample_params) = Some (100, 149)"
proof -
  have h1: "getSupabase env_configured None = (Some sample_client, Some sample_client)"
    by (rule getSupabase_configured)
  have h2: "r_error (svc_down sample_client (viewQuery sample_params)) \<noteq> None"
    by (simp add: svc_down_def table_viewQuery)
  have v: "filters (viewQuery sample_params) =
       [Gte ''lead_score'' 70, Eq ''severity'' ''fatal'', Eq ''status'' ''new'']"
    by (simp add: filters_viewQuery sample_params_def)
  have r: "range_of (viewQuery sample_params) = Some (100, 149)"
    by (rule range_sample_params)
  show ?thesis
    using h1 h2 v r fallback_query_same_predicates [where e = env_configured and cl = None
        and c = sample_client and cl' = "Some sample_client" and svc = svc_down
        and p = sample_params and pa = sample_params0]
    by simp
qed

section \<open>The three outcomes of the fetcher\<close>







section \<open>Absent configuration\<close>

lemma totalPagesOf_0: "totalPagesOf 0 = 1"
  by (simp add: totalPagesOf_def PAGE_SIZE_def)

lemma fetch_absent:
  "falsy (env_url e) \<or> falsy (env_anon e) \<Longrightarrow>
   fetchPagedFromViewOrArticles e svc None p =
     (None, [], Inr \<lparr>res_data = [], res_count = 0, res_source = V_triage_live\<rparr>)"
  by (simp add: fetchPagedFromViewOrArticles_def getSupabase_def)

text \<open>
  C5. When the endpoint URL or the anonymous key is absent (undefined or empty) and no
  client has been constructed, \<^verbatim>\<open>getSupabase\<close> returns null and leaves the module
  variable null, so the same holds at every later call; the fetcher (with or without
  the status parameter) then returns the empty row list, the count zero and the view
  tag without awaiting any query and without throwing; \<^verbatim>\<open>load\<close> ends with no rows,
  total count zero and no error text.
\<close>

theorem absent_configuration_gives_empty_result:
  assumes "falsy (env_url e) \<or> falsy (env_anon e)"
  shows "getSupabase e None = (None, None)
     \<and> fetchPagedFromViewOrArticles e svc None p =
         (None, [], Inr \<lparr>res_data = [], res_count = 0, res_source = V_triage_live\<rparr>)
     \<and> fetchPagedFromViewOrArticles0 e svc None pa =
         (None, [], Inr \<lparr>res_data = [], res_count = 0, res_source = V_triage_live\<rparr>)
     \<and> fst (load e svc (None, s)) = None
     \<and> fst (snd (load e svc (None, s))) = []
     \<and> s_rows (snd (snd (load e svc (None, s)))) = []
     \<and> s_totalCount (snd (snd (load e svc (None, s)))) = 0
     \<and> s_err (snd (snd (load e svc (None, s)))) = None"
proof -
  have g: "getSupabase e None = (None, None)"
    using assms by (rule getSupabase_absent)
  have f: "\<And>q. fetchPagedFromViewOrArticles e svc None q =
         (None, [], Inr \<lparr>res_data = [], res_count = 0, res_source = V_triage_live\<rparr>)"
    using assms by (rule fetch_absent)
  have f0: "fetchPagedFromViewOrArticles0 e svc None pa =
         (None, [], Inr \<lparr>res_data = [], res_count = 0, res_source = V_triage_live\<rparr>)"
    by (simp add: fetch0_eq f)
  have l: "load e svc (None, s) =
             (None, [],
              (if 1 < s_page s
               then s\<lparr>s_loading := False, s_err := None, s_rows := [], s_totalCount := 0,
                      s_source := Some V_triage_live, s_page := 1\<rparr>
               else s\<lparr>s_loading := False, s_err := None, s_rows := [], s_totalCount := 0,
                      s_source := Some V_triage_live\<rparr>))"
    by (simp add: load_def f Let_def totalPagesOf_0)
  show ?thesis
    using g f [of p] f0 by (simp add: l)
qed

theorem absent_configuration_gives_empty_result_witness:
  "(falsy (env_url env_unconfigured) \<or> falsy (env_anon env_unconfigured))
   \<and> fetchPagedFromViewOrArticles env_unconfigured svc_down None sample_params =
       (None, [], Inr \<lparr>res_data = [], res_count = 0, res_source = V_triage_live\<rparr>)"
proof -
  have h: "falsy (env_url env_unconfigured) \<or> falsy (env_anon env_unconfigured)"
    by (simp add: env_unconfigured_def falsy_def)
  show ?thesis
    using h absent_configuration_gives_empty_result [OF h]
    by simp
qed

section \<open>Pagination\<close>









section \<open>The score predicate\<close>









section \<open>\<^verbatim>\<open>load\<close> after a failed fetch\<close>

lemma load_on_throw:
  assumes "fetchPagedFromViewOrArticles e svc cl
             \<lparr>p_minScore = s_minScore s, p_severity = s_severity s,
              p_caseType = s_caseType s, p_status = s_status s, p_page = s_page s\<rparr>
           = (cl', issued, Inl err)"
  shows "load e svc (cl, s) =
           (cl', issued,
            s\<lparr>s_rows := [], s_totalCount := 0, s_err := Some (err_message err),
              s_source := None, s_loading := False\<rparr>)"
  using assms by (simp add: load_def Let_def)

lemma load0_on_throw:
  assumes "fetchPagedFromViewOrArticles0 e svc cl
             \<lparr>p0_minScore = s_minScore s, p0_severity = s_severity s,
              p0_caseType = s_caseType s, p0_page = s_page s\<rparr>
           = (cl', issued, Inl err)"
  shows "load0 e svc (cl, s) =
           (cl', issued,
            s\<lparr>s_rows := [], s_totalCount := 0, s_err := Some (err_message err),
              s_source := None, s_loading := False\<rparr>)"
  using assms by (simp add: load0_def Let_def)

lemma load_imported_on_throw:
  assumes "fetchPagedFromViewOrArticles_imported svc c
             \<lparr>p0_minScore = s_minScore s, p0_severity = s_severity s,
              p0_caseType = s_caseType s, p0_page = s_page s\<rparr>
           = (issued, Inl err)"
  shows "load_imported svc c s =
           (issued,
            s\<lparr>s_rows := [], s_totalCount := 0, s_err := Some (err_message err),
              s_source := None, s_loading := False\<rparr>)"
  using assms by (simp add: load_imported_def Let_def)

lemma fetch_throws_iff:
  "(\<exists>err. snd (snd (fetchPagedFromViewOrArticles e svc cl p)) = Inl err) =
   (\<exists>c. fst (getSupabase e cl) = Some c \<and> r_error (svc c (viewQuery p)) \<noteq> None
        \<and> r_error (svc c (articlesQuery p)) \<noteq> None)"
  by (auto simp add: fetchPagedFromViewOrArticles_def Let_def
      split: prod.splits option.splits)

text \<open>
  C9, as amended. In each page, whenever its fetcher throws (which the fetcher does
  exactly when a client exists and both queries fail, \<open>fetch_throws_iff\<close>),
  \<^verbatim>\<open>load\<close> ends in the state it started from with the rows set to the empty list, the
  total count to zero, the error text to the message thrown, the source tag to null
  and the loading flag to false. Every other state variable keeps its value: the
  four filter selections, the page, the search text, the sort key and direction, the
  auto-refresh switch and the expanded row. The three conjuncts are the page with
  the status filter, the page without it and the page with an imported client, each
  under the failure of its own fetcher only.
\<close>

theorem load_failure_clears_rows_keeps_filters:
  "(snd (snd (fetchPagedFromViewOrArticles e svc cl
             \<lparr>p_minScore = s_minScore s, p_severity = s_severity s,
              p_caseType = s_caseType s, p_status = s_status s, p_page = s_page s\<rparr>))
      = Inl err \<longrightarrow>
      snd (snd (load e svc (cl, s))) =
        s\<lparr>s_rows := [], s_totalCount := 0, s_err := Some (err_message err),
          s_source := None, s_loading := False\<rparr>
    \<and> s_minScore (snd (snd (load e svc (cl, s)))) = s_minScore s
    \<and> s_severity (snd (snd (load e svc (cl, s)))) = s_severity s
    \<and> s_caseType (snd (snd (load e svc (cl, s)))) = s_caseType s
    \<and> s_status (snd (snd (load e svc (cl, s)))) = s_status s
    \<and> s_page (snd (snd (load e svc (cl, s)))) = s_page s)
   \<and> (snd (snd (fetchPagedFromViewOrArticles0 e svc cl
             \<lparr>p0_minScore = s_minScore s, p0_severity = s_severity s,
              p0_caseType = s_caseType s, p0_page = s_page s\<rparr>))
      = Inl err0 \<longrightarrow>
      snd (snd (load0 e svc (cl, s))) =
        s\<lparr>s_rows := [], s_totalCount := 0, s_err := Some (err_message err0),
          s_source := None, s_loading := False\<rparr>)
   \<and> (snd (fetchPagedFromViewOrArticles_imported svc c
             \<lparr>p0_minScore = s_minScore s, p0_severity = s_severity s,
              p0_caseType = s_caseType s, p0_page = s_page s\<rparr>)
      = Inl err1 \<longrightarrow>
      snd (load_imported svc c s) =
        s\<lparr>s_rows := [], s_totalCount := 0, s_err := Some (err_message err1),
          s_source := None, s_loading := False\<rparr>)"
proof (intro conjI impI)
  assume a: "snd (snd (fetchPagedFromViewOrArticles e svc cl
             \<lparr>p_minScore = s_minScore s, p_severity = s_severity s,
              p_caseType = s_caseType s, p_status = s_status s, p_page = s_page s\<rparr>))
      = Inl err"
  then obtain cl' issued where f: "fetchPagedFromViewOrArticles e svc cl
             \<lparr>p_minScore = s_minScore s, p_severity = s_severity s,
              p_caseType = s_caseType s, p_status = s_status s, p_page = s_page s\<rparr>
           = (cl', issued, Inl err)"
    by (metis prod.collapse)
  note l = load_on_throw [OF f]
  show "snd (snd (load e svc (cl, s))) =
        s\<lparr>s_rows := [], s_totalCount := 0, s_err := Some (err_message err),
          s_source := None, s_loading := False\<rparr>"
    by (simp add: l)
  show "s_minScore (snd (snd (load e svc (cl, s)))) = s_minScore s"
    by (simp add: l)
  show "s_severity (snd (snd (load e svc (cl, s)))) = s_severity s"
    by (simp add: l)
  show "s_caseType (snd (snd (load e svc (cl, s)))) = s_caseType s"
    by (simp add: l)
  show "s_status (snd (snd (load e svc (cl, s)))) = s_status s"
    by (simp add: l)
  show "s_page (snd (snd (load e svc (cl, s)))) = s_page s"
    by (simp add: l)
next
  assume "snd (snd (fetchPagedFromViewOrArticles0 e svc cl
             \<lparr>p0_minScore = s_minScore s, p0_severity = s_severity s,
              p0_caseType = s_caseType s, p0_page = s_page s\<rparr>))
      = Inl err0"
  then obtain cl0 issued0 where f0: "fetchPagedFromViewOrArticles0 e svc cl
             \<lparr>p0_minScore = s_minScore s, p0_severity = s_severity s,
              p0_caseType = s_caseType s, p0_page = s_page s\<rparr>
           = (cl0, issued0, Inl err0)"
    by (metis prod.collapse)
  show "snd (snd (load0 e svc (cl, s))) =
        s\<lparr>s_rows := [], s_totalCount := 0, s_err := Some (err_message err0),
          s_source := None, s_loading := False\<rparr>"
    by (simp add: load0_on_throw [OF f0])
next
  assume "snd (fetchPagedFromViewOrArticles_imported svc c
             \<lparr>p0_minScore = s_minScore s, p0_severity = s_severity s,
              p0_caseType = s_caseType s, p0_page = s_page s\<rparr>)
      = Inl err1"
  then obtain issued1 where f1: "fetchPagedFromViewOrArticles_imported svc c
             \<lparr>p0_minScore = s_minScore s, p0_severity = s_severity s,
              p0_caseType = s_caseType s, p0_page = s_page s\<rparr>
           = (issued1, Inl err1)"
    by (metis prod.collapse)
  show "snd (load_imported svc c s) =
        s\<lparr>s_rows := [], s_totalCount := 0, s_err := Some (err_message err1),
          s_source := None, s_loading := False\<rparr>"
    by (simp add: load_imported_on_throw [OF f1])
qed

lemma fetch_svc_down:
  assumes "getSupabase e cl = (Some c, cl')"
  shows "fetchPagedFromViewOrArticles e svc_down cl p =
           (cl', [viewQuery p, articlesQuery p],
            Inl (Error ''View error: view missing | Articles error: table missing''))"
  using assms
  by (simp add: fetchPagedFromViewOrArticles_def Let_def svc_down_def table_viewQuery
      table_articlesQuery)

lemma load_svc_down:
  "load env_configured svc_down (None, s) =
     (Some sample_client,
      [viewQuery \<lparr>p_minScore = s_minScore s, p_severity = s_severity s,
                  p_caseType = s_caseType s, p_status = s_status s, p_page = s_page s\<rparr>,
       articlesQuery \<lparr>p_minScore = s_minScore s, p_severity = s_severity s,
                      p_caseType = s_caseType s, p_status = s_status s, p_page = s_page s\<rparr>],
      s\<lparr>s_rows := [], s_totalCount := 0,
        s_err := Some ''View error: view missing | Articles error: table missing'',
        s_source := None, s_loading := False\<rparr>)"
  using load_on_throw [OF fetch_svc_down [OF getSupabase_configured]]
  by simp

theorem load_failure_clears_rows_keeps_filters_witness:
  "snd (snd (fetchPagedFromViewOrArticles env_configured svc_down None sample_params))
     = Inl (Error ''View error: view missing | Articles error: table missing'')
   \<and> snd (snd (load env_configured svc_down (None, sample_state))) =
       sample_state\<lparr>s_rows := [], s_totalCount := 0,
         s_err := Some ''View error: view missing | Articles error: table missing'',
         s_source := None, s_loading := False\<rparr>
   \<and> s_status (snd (snd (load env_configured svc_down (None, sample_state)))) = ''new''
   \<and> snd (snd (load0 env_configured svc_down (None, sample_state))) =
       sample_state\<lparr>s_rows := [], s_totalCount := 0,
         s_err := Some ''View error: view missing | Articles error: table missing'',
         s_source := None, s_loading := False\<rparr>
   \<and> snd (load_imported svc_down sample_client sample_state) =
       sample_state\<lparr>s_rows := [], s_totalCount := 0,
         s_err := Some ''View error: view missing | Articles error: table missing'',
         s_source := None, s_loading := False\<rparr>
   \<and> snd (snd (fetchPagedFromViewOrArticles0 env_configured (svc_status_down sample_rows)
                 None
                 \<lparr>p0_minScore = s_minScore sample_state, p0_severity = s_severity sample_state,
                  p0_caseType = s_caseType sample_state, p0_page = s_page sample_state\<rparr>))
       = Inr \<lparr>res_data = [], res_count = 3, res_source = V_triage_live\<rparr>
   \<and> snd (snd (load env_configured (svc_status_down sample_rows) (None, sample_state))) =
       sample_state\<lparr>s_rows := [], s_totalCount := 0,
         s_err := Some ''View error: status rejected | Articles error: status rejected'',
         s_source := None, s_loading := False\<rparr>"
proof -
  let ?m = "''View error: view missing | Articles error: table missing''"
  let ?n = "''View error: status rejected | Articles error: status rejected''"
  let ?pfull = "\<lparr>p_minScore = s_minScore sample_state, p_severity = s_severity sample_state,
             p_caseType = s_caseType sample_state, p_status = s_status sample_state,
             p_page = s_page sample_state\<rparr>"
  let ?pnostatus = "\<lparr>p0_minScore = s_minScore sample_state, p0_severity = s_severity sample_state,
              p0_caseType = s_caseType sample_state, p0_page = s_page sample_state\<rparr>"
  have ps: "?pfull = sample_params"
    by (simp add: sample_state_def sample_params_def)
  have ps0: "withAllStatus ?pnostatus = sample_params\<lparr>p_status := ''all''\<rparr>"
    by (simp add: sample_state_def sample_params_def withAllStatus_def)
  have g: "getSupabase env_configured None = (Some sample_client, Some sample_client)"
    by (rule getSupabase_configured)
  have f: "fetchPagedFromViewOrArticles env_configured svc_down None q =
             (Some sample_client, [viewQuery q, articlesQuery q], Inl (Error ?m))" for q
    by (rule fetch_svc_down [OF g])
  have h1: "snd (snd (fetchPagedFromViewOrArticles env_configured svc_down None ?pfull))
              = Inl (Error ?m)"
    by (simp add: f)
  have h2: "snd (snd (fetchPagedFromViewOrArticles0 env_configured svc_down None ?pnostatus))
              = Inl (Error ?m)"
    by (simp add: fetch0_eq f)
  have h3: "snd (fetchPagedFromViewOrArticles_imported svc_down sample_client ?pnostatus)
              = Inl (Error ?m)"
    using fetch0_imported [OF g, of svc_down ?pnostatus, symmetric]
    by (simp add: fetch0_eq f)
  have st: "s_status sample_state = ''new''"
    by (simp add: sample_state_def)
  note t = load_failure_clears_rows_keeps_filters [where e = env_configured
      and svc = svc_down and cl = None and s = sample_state and c = sample_client
      and err = "Error ?m" and ?err0.0 = "Error ?m" and ?err1.0 = "Error ?m"]
  have a1: "snd (snd (load env_configured svc_down (None, sample_state))) =
       sample_state\<lparr>s_rows := [], s_totalCount := 0, s_err := Some ?m,
         s_source := None, s_loading := False\<rparr>"
    using t h1 by simp
  have a2: "s_status (snd (snd (load env_configured svc_down (None, sample_state)))) = ''new''"
    using t h1 st by simp
  have a3: "snd (snd (load0 env_configured svc_down (None, sample_state))) =
       sample_state\<lparr>s_rows := [], s_totalCount := 0, s_err := Some ?m,
         s_source := None, s_loading := False\<rparr>"
    using t h2 by simp
  have a4: "snd (load_imported svc_down sample_client sample_state) =
       sample_state\<lparr>s_rows := [], s_totalCount := 0, s_err := Some ?m,
         s_source := None, s_loading := False\<rparr>"
    using t h3 by simp
  have fv: "filters (viewQuery sample_params) =
              [Gte ''lead_score'' 70, Eq ''severity'' ''fatal'', Eq ''status'' ''new'']"
    by (simp add: filters_viewQuery sample_params_def)
  have fv0: "filters (viewQuery (sample_params\<lparr>p_status := ''all''\<rparr>)) =
              [Gte ''lead_score'' 70, Eq ''severity'' ''fatal'']"
    by (simp add: filters_viewQuery sample_params_def)
  have rv0: "range_of (viewQuery (sample_params\<lparr>p_status := ''all''\<rparr>)) = Some (100, 149)"
    using range_viewQuery [of "sample_params\<lparr>p_status := ''all''\<rparr>"]
    by (simp add: sample_params_def)
  have e1: "r_error (svc_status_down sample_rows sample_client (viewQuery sample_params))
              = Some (PgError ''status rejected'')"
    by (simp add: svc_status_down_def fv)
  have e2: "r_error (svc_status_down sample_rows sample_client (articlesQuery sample_params))
              = Some (PgError ''status rejected'')"
    by (simp add: svc_status_down_def articlesQuery_viewQuery fv)
  have e3: "svc_status_down sample_rows sample_client
              (viewQuery (sample_params\<lparr>p_status := ''all''\<rparr>)) =
              \<lparr>r_error = None, r_data = Some [], r_count = Some 3\<rparr>"
    by (simp add: svc_status_down_def fv0 svc_table_def rv0 sample_rows_def)
  have b1: "snd (snd (fetchPagedFromViewOrArticles env_configured
                        (svc_status_down sample_rows) None ?pfull)) = Inl (Error ?n)"
    using g e1 e2 by (simp add: ps fetchPagedFromViewOrArticles_def Let_def)
  have b2: "snd (snd (fetchPagedFromViewOrArticles0 env_configured
                        (svc_status_down sample_rows) None ?pnostatus))
              = Inr \<lparr>res_data = [], res_count = 3, res_source = V_triage_live\<rparr>"
    using g e3
    by (simp add: fetch0_eq ps0 fetchPagedFromViewOrArticles_def Let_def orElse_def)
  have b3: "snd (snd (load env_configured (svc_status_down sample_rows) (None, sample_state)))
              = sample_state\<lparr>s_rows := [], s_totalCount := 0, s_err := Some ?n,
                  s_source := None, s_loading := False\<rparr>"
    using b1
      load_failure_clears_rows_keeps_filters [where e = env_configured
        and svc = "svc_status_down sample_rows" and cl = None and s = sample_state
        and err = "Error ?n"]
    by simp
  show ?thesis
    using h1 a1 a2 a3 a4 b2 b3 by (simp add: ps)
qed

text \<open>
  C9 as stated lets nothing but the rows and the total count change. On the sample
  state, shown from the view with no error text, a failed fetch also clears the source
  tag and sets the error text, so the final state is not the initial one with only
  the rows and the count reset.
\<close>

theorem load_failure_changes_error_and_source_counterexample:
  "snd (snd (load env_configured svc_down (None, sample_state)))
     \<noteq> sample_state\<lparr>s_rows := [], s_totalCount := 0\<rparr>
   \<and> s_source sample_state = Some V_triage_live
   \<and> s_source (snd (snd (load env_configured svc_down (None, sample_state)))) = None
   \<and> s_err sample_state = None
   \<and> s_err (snd (snd (load env_configured svc_down (None, sample_state))))
       = Some ''View error: view missing | Articles error: table missing''"
proof -
  have a: "s_source sample_state = Some V_triage_live" "s_err sample_state = None"
    by (simp_all add: sample_state_def)
  have b: "s_source (snd (snd (load env_configured svc_down (None, sample_state)))) = None"
    by (simp add: load_svc_down)
  have c: "s_err (snd (snd (load env_configured svc_down (None, sample_state))))
       = Some ''View error: view missing | Articles error: table missing''"
    by (simp add: load_svc_down)
  have d: "snd (snd (load env_configured svc_down (None, sample_state)))
     \<noteq> sample_state\<lparr>s_rows := [], s_totalCount := 0\<rparr>"
  proof
    assume "snd (snd (load env_configured svc_down (None, sample_state)))
              = sample_state\<lparr>s_rows := [], s_totalCount := 0\<rparr>"
    then have "s_source (snd (snd (load env_configured svc_down (None, sample_state))))
              = s_source (sample_state\<lparr>s_rows := [], s_totalCount := 0\<rparr>)"
      by simp
    then show False using a b by simp
  qed
  show ?thesis using a b c d by simp
qed

section \<open>The search step\<close>












section \<open>The sort step\<close>

lemma mset_insert_cmp: "mset (insert_cmp cmp x xs) = add_mset x (mset xs)"
  by (induction xs) simp_all

lemma mset_array_sort: "mset (array_sort cmp xs) = mset xs"
  by (induction xs) (simp_all add: mset_insert_cmp)

lemma set_array_sort: "set (array_sort cmp xs) = set xs"
  using mset_array_sort [of cmp xs] by (metis set_mset_mset)

lemma set_insert_cmp: "set (insert_cmp cmp x xs) = insert x (set xs)"
  using mset_insert_cmp [of cmp x xs] by (metis set_mset_mset set_mset_add_mset_insert)

text \<open>
  On a comparator that subtracts finite keys the model is the stable sort of the
  library.
\<close>

lemma insert_cmp_insort_key:
  assumes "\<And>a b. cmp a b = Fin (f a - f b)"
  shows "insert_cmp cmp x ys = insort_key f x ys"
  by (induction ys) (simp_all add: assms not_less)

lemma array_sort_sort_key:
  fixes f :: "'a \<Rightarrow> real"
  assumes "\<And>a b. cmp a b = Fin (f a - f b)"
  shows "array_sort cmp xs = sort_key f xs"
  using assms by (induction xs) (simp_all add: insert_cmp_insort_key)

lemma sorted_insert_cmp:
  assumes "\<And>y. y \<in> set ys \<Longrightarrow> js_positive (cmp x y) = (\<not> R x y)"
    and "\<And>y. y \<in> set ys \<Longrightarrow> R x y \<or> R y x"
    and "\<And>y z. y \<in> set ys \<Longrightarrow> z \<in> set ys \<Longrightarrow> R x y \<Longrightarrow> R y z \<Longrightarrow> R x z"
    and "sorted_wrt R ys"
  shows "sorted_wrt R (insert_cmp cmp x ys)"
  using assms
proof (induction ys)
  case Nil
  then show ?case by simp
next
  case (Cons y ys)
  show ?case
  proof (cases "js_positive (cmp x y)")
    case True
    then have "\<not> R x y" using Cons.prems(1) by simp
    then have yx: "R y x" using Cons.prems(2) [of y] by auto
    have ih: "sorted_wrt R (insert_cmp cmp x ys)"
      using Cons.prems by (intro Cons.IH) auto
    have "\<forall>z\<in>set (insert_cmp cmp x ys). R y z"
      using yx Cons.prems(4) by (simp add: set_insert_cmp)
    with ih True show ?thesis by simp
  next
    case False
    then have xy: "R x y" using Cons.prems(1) by simp
    have "\<forall>z\<in>set ys. R x z"
      using xy Cons.prems(3) [of y] Cons.prems(4) by auto
    with xy False Cons.prems(4) show ?thesis by simp
  qed
qed

lemma sorted_array_sort_on:
  assumes sub: "set xs \<subseteq> S"
    and pos: "\<And>x y. x \<in> S \<Longrightarrow> y \<in> S \<Longrightarrow> js_positive (cmp x y) = (\<not> R x y)"
    and total: "\<And>x y. x \<in> S \<Longrightarrow> y \<in> S \<Longrightarrow> R x y \<or> R y x"
    and trans: "\<And>x y z. x \<in> S \<Longrightarrow> y \<in> S \<Longrightarrow> z \<in> S \<Longrightarrow> R x y \<Longrightarrow> R y z \<Longrightarrow> R x z"
  shows "sorted_wrt R (array_sort cmp xs)"
  using sub
proof (induction xs)
  case Nil
  show ?case by simp
next
  case (Cons x xs)
  from Cons.prems have xS: "x \<in> S" and xsS: "set xs \<subseteq> S"
    by simp_all
  have ih: "sorted_wrt R (array_sort cmp xs)"
    using Cons.IH xsS by simp
  have inS: "y \<in> S" if "y \<in> set (array_sort cmp xs)" for y
    using that xsS set_array_sort [of cmp xs] by blast
  have "sorted_wrt R (insert_cmp cmp x (array_sort cmp xs))"
  proof (rule sorted_insert_cmp)
    show "sorted_wrt R (array_sort cmp xs)" by (rule ih)
  next
    fix y assume "y \<in> set (array_sort cmp xs)"
    then show "js_positive (cmp x y) = (\<not> R x y)"
      using pos [OF xS inS] by simp
  next
    fix y assume "y \<in> set (array_sort cmp xs)"
    then show "R x y \<or> R y x"
      using total [OF xS inS] by simp
  next
    fix y z assume "y \<in> set (array_sort cmp xs)" and "z \<in> set (array_sort cmp xs)"
      and "R x y" and "R y z"
    then show "R x z"
      using trans [OF xS inS inS] by blast
  qed
  then show ?case by simp
qed

lemma js_positive_sub: "x \<noteq> NaN \<Longrightarrow> y \<noteq> NaN \<Longrightarrow> js_positive (js_sub x y) = (\<not> js_le x y)"
  by (cases x; cases y) auto

lemma js_le_total: "x \<noteq> NaN \<Longrightarrow> y \<noteq> NaN \<Longrightarrow> js_le x y \<or> js_le y x"
  by (cases x; cases y) auto

lemma js_le_trans: "js_le x y \<Longrightarrow> js_le y z \<Longrightarrow> js_le x z"
  by (cases x; cases y; cases z) auto

lemma sorted_by_key_asc:
  assumes "\<And>x. x \<in> set xs \<Longrightarrow> key x \<noteq> NaN"
    and "\<And>x y. cmp x y = js_sub (key x) (key y)"
  shows "sorted_wrt (\<lambda>a b. js_le (key a) (key b)) (array_sort cmp xs)"
proof (rule sorted_array_sort_on [where S = "set xs"])
  show "set xs \<subseteq> set xs" by simp
next
  fix x y assume "x \<in> set xs" "y \<in> set xs"
  then show "js_positive (cmp x y) = (\<not> js_le (key x) (key y))"
    using assms by (simp add: js_positive_sub)
next
  fix x y assume "x \<in> set xs" "y \<in> set xs"
  then show "js_le (key x) (key y) \<or> js_le (key y) (key x)"
    using assms(1) by (simp add: js_le_total)
next
  fix x y z assume "js_le (key x) (key y)" "js_le (key y) (key z)"
  then show "js_le (key x) (key z)" by (rule js_le_trans)
qed

lemma sorted_by_key_desc:
  assumes "\<And>x. x \<in> set xs \<Longrightarrow> key x \<noteq> NaN"
    and "\<And>x y. cmp x y = js_sub (key y) (key x)"
  shows "sorted_wrt (\<lambda>a b. js_le (key b) (key a)) (array_sort cmp xs)"
proof (rule sorted_array_sort_on [where S = "set xs"])
  show "set xs \<subseteq> set xs" by simp
next
  fix x y assume "x \<in> set xs" "y \<in> set xs"
  then show "js_positive (cmp x y) = (\<not> js_le (key y) (key x))"
    using assms by (simp add: js_positive_sub)
next
  fix x y assume "x \<in> set xs" "y \<in> set xs"
  then show "js_le (key y) (key x) \<or> js_le (key x) (key y)"
    using assms(1) by (simp add: js_le_total)
next
  fix x y z assume "js_le (key y) (key x)" "js_le (key z) (key y)"
  then show "js_le (key z) (key x)" using js_le_trans by blast
qed


lemma compareRows_key:
  "compareRows getTime k d a b =
     (case d of Asc \<Rightarrow> js_sub (keyOf getTime k a) (keyOf getTime k b)
              | Desc \<Rightarrow> js_sub (keyOf getTime k b) (keyOf getTime k a))"
  by (cases k; cases d) (simp_all add: compareRows_def keyOf_def scoreKey_def timeKey_def Let_def)

lemma compareRows_compact_key:
  "compareRows_compact getTime k d a b =
     (case d of Asc \<Rightarrow> js_sub (keyOf_compact getTime k a) (keyOf_compact getTime k b)
              | Desc \<Rightarrow> js_sub (keyOf_compact getTime k b) (keyOf_compact getTime k a))"
  by (cases k; cases d)
    (simp_all add: compareRows_compact_def keyOf_compact_def scoreKey_compact_def
      timeKey_compact_def Let_def orElse_def split: option.splits)

lemma is_finite_not_NaN: "is_finite x \<Longrightarrow> x \<noteq> NaN"
  by (cases x) simp_all

lemma keyOf_not_NaN:
  assumes "k = Lead_score \<or> timestamps_parse getTime rows" and "r \<in> set rows"
  shows "keyOf getTime k r \<noteq> NaN"
proof (cases k)
  case Lead_score
  then show ?thesis by (simp add: keyOf_def scoreKey_def split: option.splits)
next
  case Triaged_at
  with assms have "falsy (triaged_at r) \<or> is_finite (getTime (the (triaged_at r)))"
    by (simp add: timestamps_parse_def list_all_iff)
  then show ?thesis
    using Triaged_at is_finite_not_NaN by (auto simp add: keyOf_def timeKey_def)
qed

lemma keyOf_compact_not_NaN:
  assumes "k = Lead_score \<or> timestamps_parse_compact getTime rows" and "r \<in> set rows"
  shows "keyOf_compact getTime k r \<noteq> NaN"
proof (cases k)
  case Lead_score
  then show ?thesis
    by (simp add: keyOf_compact_def scoreKey_compact_def split: option.splits)
next
  case Triaged_at
  with assms have "case triaged_at r of None \<Rightarrow> True | Some s \<Rightarrow> is_finite (getTime s)"
    by (simp add: timestamps_parse_compact_def list_all_iff)
  then show ?thesis
    using Triaged_at is_finite_not_NaN
    by (auto simp add: keyOf_compact_def timeKey_compact_def split: option.splits)
qed

lemma sorted_by_key_dir:
  assumes "\<And>x. x \<in> set xs \<Longrightarrow> key x \<noteq> NaN"
    and "\<And>x y. cmp x y = (case d of Asc \<Rightarrow> js_sub (key x) (key y)
                                   | Desc \<Rightarrow> js_sub (key y) (key x))"
  shows "sorted_wrt (\<lambda>a b. inOrder d (key a) (key b)) (array_sort cmp xs)"
proof (cases d)
  case Asc
  then have "\<And>x y. cmp x y = js_sub (key x) (key y)" using assms(2) by simp
  then have "sorted_wrt (\<lambda>a b. js_le (key a) (key b)) (array_sort cmp xs)"
    using assms(1) by (rule sorted_by_key_asc [rotated])
  then show ?thesis using Asc by (simp add: inOrder_def)
next
  case Desc
  then have "\<And>x y. cmp x y = js_sub (key y) (key x)" using assms(2) by simp
  then have "sorted_wrt (\<lambda>a b. js_le (key b) (key a)) (array_sort cmp xs)"
    using assms(1) by (rule sorted_by_key_desc [rotated])
  then show ?thesis using Desc by (simp add: inOrder_def)
qed

lemma set_searched: "set (searched lower rows search) \<subseteq> set rows"
  by (simp add: searched_def Let_def)

lemma set_searched_status: "set (searched_status lower rows search) \<subseteq> set rows"
  by (simp add: searched_status_def Let_def)

lemma set_searched_compact: "set (searched_compact lower rows search) \<subseteq> set rows"
  by (simp add: searched_compact_def Let_def)

lemma sorted_compareRows:
  assumes "k = Lead_score \<or> timestamps_parse getTime rows" and "set xs \<subseteq> set rows"
  shows "sorted_wrt (\<lambda>a b. inOrder d (keyOf getTime k a) (keyOf getTime k b))
           (array_sort (compareRows getTime k d) xs)"
proof (rule sorted_by_key_dir)
  fix x assume "x \<in> set xs"
  then have "x \<in> set rows" using assms(2) by blast
  with assms(1) show "keyOf getTime k x \<noteq> NaN"
    by (rule keyOf_not_NaN)
next
  fix x y
  show "compareRows getTime k d x y =
          (case d of Asc \<Rightarrow> js_sub (keyOf getTime k x) (keyOf getTime k y)
                   | Desc \<Rightarrow> js_sub (keyOf getTime k y) (keyOf getTime k x))"
    by (rule compareRows_key)
qed

lemma sorted_compareRows_compact:
  assumes "k = Lead_score \<or> timestamps_parse_compact getTime rows"
    and "set xs \<subseteq> set rows"
  shows "sorted_wrt (\<lambda>a b. inOrder d (keyOf_compact getTime k a) (keyOf_compact getTime k b))
           (array_sort (compareRows_compact getTime k d) xs)"
proof (rule sorted_by_key_dir)
  fix x assume "x \<in> set xs"
  then have "x \<in> set rows" using assms(2) by blast
  with assms(1) show "keyOf_compact getTime k x \<noteq> NaN"
    by (rule keyOf_compact_not_NaN)
next
  fix x y
  show "compareRows_compact getTime k d x y =
          (case d of Asc \<Rightarrow> js_sub (keyOf_compact getTime k x) (keyOf_compact getTime k y)
                   | Desc \<Rightarrow> js_sub (keyOf_compact getTime k y) (keyOf_compact getTime k x))"
    by (rule compareRows_compact_key)
qed

lemma sorted_filtered:
  assumes "k = Lead_score \<or> timestamps_parse getTime rows"
  shows "sorted_wrt (\<lambda>a b. inOrder d (keyOf getTime k a) (keyOf getTime k b))
           (filtered lower getTime rows search k d)"
  unfolding filtered_def
  using assms set_searched by (rule sorted_compareRows)

lemma sorted_filtered_status:
  assumes "k = Lead_score \<or> timestamps_parse getTime rows"
  shows "sorted_wrt (\<lambda>a b. inOrder d (keyOf getTime k a) (keyOf getTime k b))
           (filtered_status lower getTime rows search k d)"
  unfolding filtered_status_def
  using assms set_searched_status by (rule sorted_compareRows)

lemma sorted_filtered_compact:
  assumes "k = Lead_score \<or> timestamps_parse_compact getTime rows"
  shows "sorted_wrt (\<lambda>a b. inOrder d (keyOf_compact getTime k a) (keyOf_compact getTime k b))
           (filtered_compact lower getTime rows search k d)"
  unfolding filtered_compact_def
  using assms set_searched_compact by (rule sorted_compareRows_compact)

lemma js_le_NegInf: "js_le x NegInf \<Longrightarrow> x = NegInf"
  by (cases x) simp_all

lemma mset_filtered:
  "mset (filtered lower getTime rows search k d) = mset (searched lower rows search)"
  by (simp add: filtered_def mset_array_sort)

lemma mset_filtered_status:
  "mset (filtered_status lower getTime rows search k d) =
     mset (searched_status lower rows search)"
  by (simp add: filtered_status_def mset_array_sort)

lemma mset_filtered_compact:
  "mset (filtered_compact lower getTime rows search k d) =
     mset (searched_compact lower rows search)"
  by (simp add: filtered_compact_def mset_array_sort)

lemma set_filtered: "set (filtered lower getTime rows search k d) \<subseteq> set rows"
  using set_searched [of lower rows search] by (simp add: filtered_def set_array_sort)

lemma score_desc_order:
  assumes "i < j" and "j < length (filtered lower getTime rows search Lead_score Desc)"
  shows "\<not> (lead_score (filtered lower getTime rows search Lead_score Desc ! i) = Some 40
            \<and> lead_score (filtered lower getTime rows search Lead_score Desc ! j) = Some 90)
       \<and> (lead_score (filtered lower getTime rows search Lead_score Desc ! i) = None \<longrightarrow>
            lead_score (filtered lower getTime rows search Lead_score Desc ! j) = None)"
proof -
  let ?res = "filtered lower getTime rows search Lead_score Desc"
  have "sorted_wrt (\<lambda>a b. inOrder Desc (keyOf getTime Lead_score a) (keyOf getTime Lead_score b))
          ?res"
    by (rule sorted_filtered) simp
  then have le: "js_le (scoreKey (?res ! j)) (scoreKey (?res ! i))"
    using assms by (simp add: sorted_wrt_iff_nth_less inOrder_def keyOf_def)
  have a: "\<not> (lead_score (?res ! i) = Some 40 \<and> lead_score (?res ! j) = Some 90)"
    using le by (auto simp add: scoreKey_def)
  have b: "lead_score (?res ! j) = None" if "lead_score (?res ! i) = None"
  proof -
    from that le have "js_le (scoreKey (?res ! j)) NegInf" by (simp add: scoreKey_def)
    then have "scoreKey (?res ! j) = NegInf" by (rule js_le_NegInf)
    then show ?thesis by (simp add: scoreKey_def split: option.splits)
  qed
  show ?thesis using a b by blast
qed

lemma timeKey_NegInf_iff:
  assumes "falsy (triaged_at r) \<or> is_finite (getTime (the (triaged_at r)))"
  shows "(timeKey getTime r = NegInf) = falsy (triaged_at r)"
  using assms by (auto simp add: timeKey_def)

lemma valid_filtered:
  assumes "timestamps_parse getTime rows"
  shows "\<forall>r\<in>set (filtered lower getTime rows search k d).
           falsy (triaged_at r) \<or> is_finite (getTime (the (triaged_at r)))"
  using assms set_filtered [of lower getTime rows search k d]
  by (auto simp add: timestamps_parse_def list_all_iff)

lemma time_asc_missing_first:
  assumes "timestamps_parse getTime rows"
    and "i < j" and "j < length (filtered lower getTime rows search Triaged_at Asc)"
    and "falsy (triaged_at (filtered lower getTime rows search Triaged_at Asc ! j))"
  shows "falsy (triaged_at (filtered lower getTime rows search Triaged_at Asc ! i))"
proof -
  let ?res = "filtered lower getTime rows search Triaged_at Asc"
  have "sorted_wrt (\<lambda>a b. inOrder Asc (keyOf getTime Triaged_at a) (keyOf getTime Triaged_at b))
          ?res"
    by (rule sorted_filtered) (simp add: assms(1))
  then have s: "sorted_wrt (\<lambda>a b. js_le (timeKey getTime a) (timeKey getTime b)) ?res"
    by (simp add: inOrder_def keyOf_def)
  have vi: "falsy (triaged_at (?res ! i)) \<or> is_finite (getTime (the (triaged_at (?res ! i))))"
    using valid_filtered [OF assms(1), where lower = lower and search = search
        and k = Triaged_at and d = Asc] assms(2,3)
    by simp
  have "js_le (timeKey getTime (?res ! i)) (timeKey getTime (?res ! j))"
    using s assms(2,3) by (simp add: sorted_wrt_iff_nth_less)
  moreover have "timeKey getTime (?res ! j) = NegInf"
    using assms(4) by (simp add: timeKey_def)
  ultimately have "timeKey getTime (?res ! i) = NegInf"
    using js_le_NegInf by simp
  then show ?thesis
    using vi timeKey_NegInf_iff [where r = "?res ! i" and getTime = getTime] by simp
qed

lemma time_desc_missing_last:
  assumes "timestamps_parse getTime rows"
    and "i < j" and "j < length (filtered lower getTime rows search Triaged_at Desc)"
    and "falsy (triaged_at (filtered lower getTime rows search Triaged_at Desc ! i))"
  shows "falsy (triaged_at (filtered lower getTime rows search Triaged_at Desc ! j))"
proof -
  let ?res = "filtered lower getTime rows search Triaged_at Desc"
  have "sorted_wrt (\<lambda>a b. inOrder Desc (keyOf getTime Triaged_at a) (keyOf getTime Triaged_at b))
          ?res"
    by (rule sorted_filtered) (simp add: assms(1))
  then have s: "sorted_wrt (\<lambda>a b. js_le (timeKey getTime b) (timeKey getTime a)) ?res"
    by (simp add: inOrder_def keyOf_def)
  have vj: "falsy (triaged_at (?res ! j)) \<or> is_finite (getTime (the (triaged_at (?res ! j))))"
    using valid_filtered [OF assms(1), where lower = lower and search = search
        and k = Triaged_at and d = Desc] assms(3)
    by simp
  have "js_le (timeKey getTime (?res ! j)) (timeKey getTime (?res ! i))"
    using s assms(2,3) by (simp add: sorted_wrt_iff_nth_less)
  moreover have "timeKey getTime (?res ! i) = NegInf"
    using assms(4) by (simp add: timeKey_def)
  ultimately have "timeKey getTime (?res ! j) = NegInf"
    using js_le_NegInf by simp
  then show ?thesis
    using vj timeKey_NegInf_iff [where r = "?res ! j" and getTime = getTime] by simp
qed

text \<open>
  C8, as amended. In the two full pages, for every list of rows, every search text
  and every direction, the displayed list is a rearrangement of the searched rows
  that is ordered by the key in which a missing score counts as negative infinity;
  when every timestamp that is present is one the date parser reads as a finite
  time, the same holds for the timestamp key, in which a missing (null or empty)
  timestamp counts as negative infinity. So in descending score order no row with
  score 40 stands before a row with score 90 and no row without a score stands before
  a row with one; in ascending timestamp order the rows without a timestamp come
  first, in descending order last. In the compact page the displayed list is a
  rearrangement of the searched rows; it is ordered by the score key in which a
  missing score counts as \<open>-1\<close>, and, when every timestamp that is not null is one
  the date parser reads as a finite time, by the timestamp key in which a missing
  timestamp counts as time \<open>0\<close>.
\<close>

theorem sort_puts_missing_at_the_sentinel:
  "(k = Lead_score \<or> timestamps_parse getTime rows \<longrightarrow>
      sorted_wrt (\<lambda>a b. inOrder d (keyOf getTime k a) (keyOf getTime k b))
        (filtered lower getTime rows search k d)
    \<and> sorted_wrt (\<lambda>a b. inOrder d (keyOf getTime k a) (keyOf getTime k b))
        (filtered_status lower getTime rows search k d))
   \<and> mset (filtered lower getTime rows search k d) = mset (searched lower rows search)
   \<and> mset (filtered_status lower getTime rows search k d)
       = mset (searched_status lower rows search)
   \<and> (\<forall>i j. i < j \<and> j < length (filtered lower getTime rows search Lead_score Desc) \<longrightarrow>
          \<not> (lead_score (filtered lower getTime rows search Lead_score Desc ! i) = Some 40
             \<and> lead_score (filtered lower getTime rows search Lead_score Desc ! j) = Some 90)
          \<and> (lead_score (filtered lower getTime rows search Lead_score Desc ! i) = None \<longrightarrow>
               lead_score (filtered lower getTime rows search Lead_score Desc ! j) = None))
   \<and> (timestamps_parse getTime rows \<longrightarrow>
        (\<forall>i j. i < j \<and> j < length (filtered lower getTime rows search Triaged_at Asc) \<longrightarrow>
            falsy (triaged_at (filtered lower getTime rows search Triaged_at Asc ! j)) \<longrightarrow>
            falsy (triaged_at (filtered lower getTime rows search Triaged_at Asc ! i)))
      \<and> (\<forall>i j. i < j \<and> j < length (filtered lower getTime rows search Triaged_at Desc) \<longrightarrow>
            falsy (triaged_at (filtered lower getTime rows search Triaged_at Desc ! i)) \<longrightarrow>
            falsy (triaged_at (filtered lower getTime rows search Triaged_at Desc ! j))))
   \<and> (k = Lead_score \<or> timestamps_parse_compact getTime rows \<longrightarrow>
        sorted_wrt (\<lambda>a b. inOrder d (keyOf_compact getTime k a) (keyOf_compact getTime k b))
          (filtered_compact lower getTime rows search k d))
   \<and> mset (filtered_compact lower getTime rows search k d)
       = mset (searched_compact lower rows search)
   \<and> keyOf getTime Lead_score r = (case lead_score r of None \<Rightarrow> NegInf | Some v \<Rightarrow> Fin v)
   \<and> keyOf getTime Triaged_at r =
       (case triaged_at r of None \<Rightarrow> NegInf
        | Some t \<Rightarrow> if t = [] then NegInf else getTime t)
   \<and> keyOf_compact getTime Lead_score r =
       (case lead_score r of None \<Rightarrow> Fin (- 1) | Some v \<Rightarrow> Fin v)
   \<and> keyOf_compact getTime Triaged_at r =
       (case triaged_at r of None \<Rightarrow> Fin 0 | Some t \<Rightarrow> getTime t)
   \<and> inOrder Asc x y = js_le x y
   \<and> inOrder Desc x y = js_le y x"
proof -
  have c1: "k = Lead_score \<or> timestamps_parse getTime rows \<longrightarrow>
      sorted_wrt (\<lambda>a b. inOrder d (keyOf getTime k a) (keyOf getTime k b))
        (filtered lower getTime rows search k d)
    \<and> sorted_wrt (\<lambda>a b. inOrder d (keyOf getTime k a) (keyOf getTime k b))
        (filtered_status lower getTime rows search k d)"
    using sorted_filtered [where k = k and getTime = getTime and rows = rows and d = d
        and search = search and lower = lower]
      sorted_filtered_status [where k = k and getTime = getTime and rows = rows and d = d
        and search = search and lower = lower]
    by blast
  have c3: "mset (filtered lower getTime rows search k d) = mset (searched lower rows search)"
    by (rule mset_filtered)
  have c4: "mset (filtered_status lower getTime rows search k d)
       = mset (searched_status lower rows search)"
    by (rule mset_filtered_status)
  have c5: "\<forall>i j. i < j \<and> j < length (filtered lower getTime rows search Lead_score Desc) \<longrightarrow>
            \<not> (lead_score (filtered lower getTime rows search Lead_score Desc ! i) = Some 40
               \<and> lead_score (filtered lower getTime rows search Lead_score Desc ! j) = Some 90)
            \<and> (lead_score (filtered lower getTime rows search Lead_score Desc ! i) = None \<longrightarrow>
                 lead_score (filtered lower getTime rows search Lead_score Desc ! j) = None)"
    using score_desc_order [where lower = lower and getTime = getTime and rows = rows
        and search = search]
    by blast
  have c6: "timestamps_parse getTime rows \<longrightarrow>
        (\<forall>i j. i < j \<and> j < length (filtered lower getTime rows search Triaged_at Asc) \<longrightarrow>
            falsy (triaged_at (filtered lower getTime rows search Triaged_at Asc ! j)) \<longrightarrow>
            falsy (triaged_at (filtered lower getTime rows search Triaged_at Asc ! i)))
      \<and> (\<forall>i j. i < j \<and> j < length (filtered lower getTime rows search Triaged_at Desc) \<longrightarrow>
            falsy (triaged_at (filtered lower getTime rows search Triaged_at Desc ! i)) \<longrightarrow>
            falsy (triaged_at (filtered lower getTime rows search Triaged_at Desc ! j)))"
    using time_asc_missing_first [where lower = lower and getTime = getTime and rows = rows
        and search = search]
      time_desc_missing_last [where lower = lower and getTime = getTime and rows = rows
        and search = search]
    by blast
  have c8: "k = Lead_score \<or> timestamps_parse_compact getTime rows \<longrightarrow>
        sorted_wrt (\<lambda>a b. inOrder d (keyOf_compact getTime k a) (keyOf_compact getTime k b))
          (filtered_compact lower getTime rows search k d)"
    using sorted_filtered_compact [where k = k and getTime = getTime and rows = rows
        and d = d and search = search and lower = lower]
    by blast
  have c9: "mset (filtered_compact lower getTime rows search k d)
       = mset (searched_compact lower rows search)"
    by (rule mset_filtered_compact)
  have k1: "keyOf getTime Lead_score r =
              (case lead_score r of None \<Rightarrow> NegInf | Some v \<Rightarrow> Fin v)"
    by (simp add: keyOf_def scoreKey_def)
  have k2: "keyOf getTime Triaged_at r =
       (case triaged_at r of None \<Rightarrow> NegInf
        | Some t \<Rightarrow> if t = [] then NegInf else getTime t)"
    by (simp add: keyOf_def timeKey_def falsy_def split: option.splits)
  have k3: "keyOf_compact getTime Lead_score r =
       (case lead_score r of None \<Rightarrow> Fin (- 1) | Some v \<Rightarrow> Fin v)"
    by (simp add: keyOf_compact_def scoreKey_compact_def)
  have k4: "keyOf_compact getTime Triaged_at r =
       (case triaged_at r of None \<Rightarrow> Fin 0 | Some t \<Rightarrow> getTime t)"
    by (simp add: keyOf_compact_def timeKey_compact_def)
  have o: "inOrder Asc x y = js_le x y" "inOrder Desc x y = js_le y x"
    by (simp_all add: inOrder_def)
  show ?thesis
    using c1 c3 c4 c5 c6 c8 c9 k1 k2 k3 k4 o by (intro conjI)
qed

lemmas sort_eval = filtered_def filtered_compact_def searched_def searched_compact_def
  compareRows_def compareRows_compact_def sample_getTime_def sample_lower_def
  sample_rows_def trim_def falsy_def orElse_def str_def Let_def
  row_a_def row_b_def row_c_def

theorem sort_puts_missing_at_the_sentinel_witness:
  "timestamps_parse sample_getTime sample_rows
   \<and> timestamps_parse_compact sample_getTime sample_rows
   \<and> sorted_wrt (\<lambda>a b. inOrder Desc (keyOf sample_getTime Lead_score a)
                         (keyOf sample_getTime Lead_score b))
        (filtered sample_lower sample_getTime sample_rows [] Lead_score Desc)
   \<and> sorted_wrt (\<lambda>a b. inOrder Asc (keyOf sample_getTime Triaged_at a)
                         (keyOf sample_getTime Triaged_at b))
        (filtered sample_lower sample_getTime sample_rows [] Triaged_at Asc)
   \<and> sorted_wrt (\<lambda>a b. inOrder Asc (keyOf_compact sample_getTime Triaged_at a)
                         (keyOf_compact sample_getTime Triaged_at b))
        (filtered_compact sample_lower sample_getTime sample_rows [] Triaged_at Asc)
   \<and> filtered sample_lower sample_getTime sample_rows [] Lead_score Desc
       = [row_a, row_b, row_c]
   \<and> filtered sample_lower sample_getTime sample_rows [] Triaged_at Asc
       = [row_c, row_b, row_a]
   \<and> filtered sample_lower sample_getTime sample_rows [] Triaged_at Desc
       = [row_a, row_b, row_c]
   \<and> filtered_compact sample_lower sample_getTime sample_rows [] Triaged_at Asc
       = [row_c, row_b, row_a]
   \<and> lead_score row_a = Some 90 \<and> lead_score row_b = Some 40 \<and> lead_score row_c = None
   \<and> triaged_at row_c = None"
proof -
  have h1: "timestamps_parse sample_getTime sample_rows"
    by (simp add: timestamps_parse_def sort_eval)
  have h2: "timestamps_parse_compact sample_getTime sample_rows"
    by (simp add: timestamps_parse_compact_def sort_eval)
  have e1: "filtered sample_lower sample_getTime sample_rows [] Lead_score Desc
              = [row_a, row_b, row_c]"
    by (simp add: sort_eval)
  have e2: "filtered sample_lower sample_getTime sample_rows [] Triaged_at Asc
              = [row_c, row_b, row_a]"
    by (simp add: sort_eval)
  have e3: "filtered sample_lower sample_getTime sample_rows [] Triaged_at Desc
              = [row_a, row_b, row_c]"
    by (simp add: sort_eval)
  have e4: "filtered_compact sample_lower sample_getTime sample_rows [] Triaged_at Asc
              = [row_c, row_b, row_a]"
    by (simp add: sort_eval)
  have r: "lead_score row_a = Some 90" "lead_score row_b = Some 40" "lead_score row_c = None"
    "triaged_at row_c = None"
    by (simp_all add: row_a_def row_b_def row_c_def)
  note t1 = sort_puts_missing_at_the_sentinel [where k = Lead_score
      and getTime = sample_getTime and rows = sample_rows and d = Desc and search = "[]"
      and lower = sample_lower]
  note t2 = sort_puts_missing_at_the_sentinel [where k = Triaged_at
      and getTime = sample_getTime and rows = sample_rows and d = Asc and search = "[]"
      and lower = sample_lower]
  have s1: "sorted_wrt (\<lambda>a b. inOrder Desc (keyOf sample_getTime Lead_score a)
                         (keyOf sample_getTime Lead_score b))
        (filtered sample_lower sample_getTime sample_rows [] Lead_score Desc)"
    using t1 by blast
  have s2: "sorted_wrt (\<lambda>a b. inOrder Asc (keyOf sample_getTime Triaged_at a)
                         (keyOf sample_getTime Triaged_at b))
        (filtered sample_lower sample_getTime sample_rows [] Triaged_at Asc)"
    using h1 t2 by blast
  have s3: "sorted_wrt (\<lambda>a b. inOrder Asc (keyOf_compact sample_getTime Triaged_at a)
                         (keyOf_compact sample_getTime Triaged_at b))
        (filtered_compact sample_lower sample_getTime sample_rows [] Triaged_at Asc)"
    using h2 t2 by blast
  show ?thesis
    using h1 h2 e1 e2 e3 e4 r s1 s2 s3 by (intro conjI)
qed

text \<open>
  C8 as stated puts rows without a score last in descending score order in every
  page. In the compact page a row without a score is compared as \<open>-1\<close>: next to a
  row with score \<open>-5\<close> it comes first.
\<close>

theorem compact_sort_missing_score_first_counterexample:
  "lead_score row_c = None
   \<and> lead_score (row_b\<lparr>lead_score := Some (- 5)\<rparr>) = Some (- 5)
   \<and> filtered_compact sample_lower sample_getTime
        [row_b\<lparr>lead_score := Some (- 5)\<rparr>, row_c] [] Lead_score Desc
      = [row_c, row_b\<lparr>lead_score := Some (- 5)\<rparr>]"
  by (simp add: sort_eval)

end
